theory Spec2Isabelle
  imports Main
begin

section \<open>The Deployment rollout controller\<close>

text \<open>
  A shallow embedding of \<^verbatim>\<open>pkg/controller/common/rollout/workloads/deployment_controller.go\<close>
  (the first, two-phase controller of the file, which implements the six-method
  \<^verbatim>\<open>WorkloadController\<close> interface of \<^verbatim>\<open>controller.go\<close>).

  The controller is a Go struct that is mutated in place by its methods and that talks to
  the cluster through a client. Here every method takes the controller and returns the
  updated controller together with what the Go method returns. The cluster behind the
  client is part of that state: a \<^verbatim>\<open>Get\<close> reads it, a successful \<^verbatim>\<open>Patch\<close> writes it.
  \<^verbatim>\<open>klog\<close> lines and recorder events are write-only and never read back by the
  controller; they are left out.
\<close>

subsection \<open>Machine integers and pointers\<close>

text \<open>
  Go's \<^verbatim>\<open>int32\<close> is modelled by \<open>int\<close> with the two's complement wrap-around written
  out: \<open>int32 x\<close> is the conversion \<^verbatim>\<open>int32(x)\<close>, and an \<^verbatim>\<open>int32\<close> addition
  \<^verbatim>\<open>a + b\<close> is \<open>int32 (a + b)\<close>.
\<close>

definition int32 :: "int \<Rightarrow> int" where
  "int32 x = (x + 2147483648) mod 4294967296 - 2147483648"

text \<open>
  A \<^verbatim>\<open>*int32\<close> is \<open>None\<close> for \<^verbatim>\<open>nil\<close>, or the address of the cell together with the
  value stored in it. The controller never writes through such a pointer (it replaces the
  pointer by a fresh one), so the value can travel with the address. Go's \<^verbatim>\<open>==\<close> and
  \<^verbatim>\<open>!=\<close> on pointers compare the addresses.
\<close>

type_synonym int32_ptr = "(nat \<times> int) option"

definition ptr_eq :: "int32_ptr \<Rightarrow> int32_ptr \<Rightarrow> bool" where
  "ptr_eq p q = (map_option fst p = map_option fst q)"

subsection \<open>Errors, panics and retry reasons\<close>

datatype panic = NilPointerDereference | IndexOutOfRange

record OwnerReference =
  APIVersion :: string
  Kind :: string
  RefName :: string
  UID :: string
  Controller :: "bool option"
  BlockOwnerDeletion :: "bool option"

text \<open>
  Every \<^verbatim>\<open>fmt.Errorf\<close> of the source is a constructor that keeps the arguments of the
  format string; the errors of the client and of the helpers outside this package are
  constructors of their own.
\<close>

datatype err =
    NotFound string
  | GetFailed string
  | PatchFailed string
  | HashFailed
  | InvalidIntOrString
  | NoDifference string
  | AttemptToScale int int
  | BatchSizeMismatch
  | MiddleOfUpdating string
  | TargetHasController string OwnerReference
  | SourceHasController string OwnerReference
  | UnknownRolloutStrategy string

text \<open>The argument of \<^verbatim>\<open>RolloutRetry\<close>: an error's text, or one of the three
  \<^verbatim>\<open>fmt.Sprintf\<close> messages with its arguments.\<close>

datatype reason =
    ErrorText err
  | BatchNotReady int int int int
  | TargetPodsNotReady int int
  | SourcePodsNotReady int int

subsection \<open>The data model\<close>

text \<open>\<^verbatim>\<open>intstr.IntOrString\<close>: an integer, or a string. A string that the library reads
  as a percentage is kept as the number before the percent sign (\<^verbatim>\<open>"50%"\<close> is
  \<open>StrPercent 50\<close>); a string it rejects is \<open>StrInvalid\<close>.\<close>

datatype IntOrString = IntVal int | StrPercent int | StrInvalid

record RolloutBatch =
  BatchReplicas :: IntOrString
  MaxUnavailable :: "IntOrString option"

record RolloutPlan =
  TargetSize :: "int option"
  RolloutStrategy :: string
  RolloutBatches :: "RolloutBatch list"

record RolloutStatus =
  CurrentBatch :: int
  RolloutTargetSize :: int
  NewPodTemplateIdentifier :: string
  LastAppliedPodTemplateIdentifier :: string
  UpgradedReplicas :: int
  UpgradedReadyReplicas :: int
  RetryReason :: "reason option"

record DeploymentSpec =
  Replicas :: int32_ptr
  Paused :: bool
  Template :: string

record DeploymentStatus =
  StatusReplicas :: int
  ReadyReplicas :: int
  UpdatedReplicas :: int

record Deployment =
  Name :: string
  OwnerReferences :: "OwnerReference list"
  Spec :: DeploymentSpec
  Status :: DeploymentStatus

text \<open>
  The client (\<^verbatim>\<open>client.Client\<close>) is the abstract Get/Patch collaborator: \<open>Get\<close> is
  what a read of a name returns now, \<open>PatchError\<close> is the error a patch of the object of
  that name would meet now (a conflict, say), or \<open>None\<close>.
\<close>

record Client =
  Get :: "string \<Rightarrow> err + Deployment"
  PatchError :: "string \<Rightarrow> err option"

record ParentController =
  ParentName :: string
  ParentUID :: string

text \<open>The struct \<^verbatim>\<open>DeploymentController\<close>. \<open>nextAddr\<close> is the allocator: the first
  address no live pointer uses.\<close>

record DeploymentController =
  client :: Client
  parentController :: ParentController
  rolloutSpec :: RolloutPlan
  rolloutStatus :: RolloutStatus
  targetNamespacedName :: string
  sourceNamespacedName :: string
  sourceDeploy :: Deployment
  targetDeploy :: Deployment
  nextAddr :: nat

text \<open>The two strategies of \<^verbatim>\<open>v1alpha1.RolloutStrategyType\<close>, a string type.\<close>

definition IncreaseFirstRolloutStrategyType :: string where
  "IncreaseFirstRolloutStrategyType = ''IncreaseFirst''"

definition DecreaseFirstRolloutStrategyType :: string where
  "DecreaseFirstRolloutStrategyType = ''DecreaseFirst''"

text \<open>Modelled from the spec: \<^verbatim>\<open>RolloutStatus.RolloutRetry\<close> is declared in the api
  package, which is not part of the sources. The spec calls it "a retry marker (reason
  string) set whenever a phase wants to be re-invoked without failing".\<close>

definition RolloutRetry :: "reason \<Rightarrow> RolloutStatus \<Rightarrow> RolloutStatus" where
  "RolloutRetry r st = st\<lparr>RetryReason := Some r\<rparr>"

definition retry :: "reason \<Rightarrow> DeploymentController \<Rightarrow> DeploymentController" where
  "retry r c = c\<lparr>rolloutStatus := RolloutRetry r (rolloutStatus c)\<rparr>"

subsection \<open>Batch sizes\<close>

text \<open>Modelled from the spec: \<^verbatim>\<open>intstr.GetValueFromIntOrPercent\<close> belongs to the
  Kubernetes library. An integer is returned as it is; a percentage is taken of the total \<open>tot\<close>
  and rounded up ("round up -- ceiling") or down; a \<^verbatim>\<open>nil\<close> or unreadable value gives
  0 and an error. The library computes the percentage in \<^verbatim>\<open>float64\<close>; the model
  computes it exactly.\<close>

definition GetValueFromIntOrPercent :: "IntOrString option \<Rightarrow> int \<Rightarrow> bool \<Rightarrow> int \<times> err option" where
  "GetValueFromIntOrPercent intOrPercent tot roundUp =
     (case intOrPercent of
        None \<Rightarrow> (0, Some InvalidIntOrString)
      | Some (IntVal v) \<Rightarrow> (v, None)
      | Some (StrPercent v) \<Rightarrow>
          (if roundUp then (- ((- (v * tot)) div 100), None) else ((v * tot) div 100, None))
      | Some StrInvalid \<Rightarrow> (0, Some InvalidIntOrString))"

text \<open>
  The loop of \<^verbatim>\<open>calculateCurrentTarget\<close>: \<open>i\<close> is the index of the head of the list,
  \<open>targetSize\<close> the running \<^verbatim>\<open>int32\<close> sum; the \<^verbatim>\<open>break\<close> returns the sum.
\<close>

fun targetLoop :: "RolloutBatch list \<Rightarrow> int \<Rightarrow> int \<Rightarrow> int \<Rightarrow> int \<Rightarrow> int" where
  "targetLoop [] totalSize currentBatch i targetSize = targetSize"
| "targetLoop (r # rs) totalSize currentBatch i targetSize =
     (let batchSize = fst (GetValueFromIntOrPercent (Some (BatchReplicas r)) totalSize True)
      in if i \<le> currentBatch
         then targetLoop rs totalSize currentBatch (i + 1) (int32 (targetSize + int32 batchSize))
         else targetSize)"

definition calculateCurrentTarget :: "DeploymentController \<Rightarrow> int \<Rightarrow> int" where
  "calculateCurrentTarget c totalSize =
     (let currentBatch = CurrentBatch (rolloutStatus c)
      in if currentBatch = int (length (RolloutBatches (rolloutSpec c))) - 1
         then totalSize
         else targetLoop (RolloutBatches (rolloutSpec c)) totalSize currentBatch 0 0)"

text \<open>The loop of \<^verbatim>\<open>calculateCurrentSource\<close>: the same, with \<^verbatim>\<open>i < currentBatch\<close>.\<close>

fun sourceLoop :: "RolloutBatch list \<Rightarrow> int \<Rightarrow> int \<Rightarrow> int \<Rightarrow> int \<Rightarrow> int" where
  "sourceLoop [] totalSize currentBatch i sourceSize = sourceSize"
| "sourceLoop (r # rs) totalSize currentBatch i sourceSize =
     (let batchSize = fst (GetValueFromIntOrPercent (Some (BatchReplicas r)) totalSize True)
      in if i < currentBatch
         then sourceLoop rs totalSize currentBatch (i + 1) (int32 (sourceSize + int32 batchSize))
         else sourceSize)"

definition calculateCurrentSource :: "DeploymentController \<Rightarrow> int \<Rightarrow> int" where
  "calculateCurrentSource c totalSize =
     sourceLoop (RolloutBatches (rolloutSpec c)) totalSize (CurrentBatch (rolloutStatus c)) 0 0"

text \<open>What one round of either loop adds to the sum: \<^verbatim>\<open>int32(batchSize)\<close>.\<close>

definition resolvedSize :: "int \<Rightarrow> RolloutBatch \<Rightarrow> int" where
  "resolvedSize totalSize r = int32 (fst (GetValueFromIntOrPercent (Some (BatchReplicas r)) totalSize True))"

subsection \<open>The client and the helper functions\<close>

text \<open>\<^verbatim>\<open>pointer.Int32Ptr(v)\<close> allocates a new cell holding \<open>v\<close> and returns its address.\<close>

definition Int32Ptr :: "int \<Rightarrow> DeploymentController \<Rightarrow> int32_ptr \<times> DeploymentController" where
  "Int32Ptr v c = (Some (nextAddr c, v), c\<lparr>nextAddr := nextAddr c + 1\<rparr>)"

text \<open>
  A \<^verbatim>\<open>Get\<close> hands the controller a freshly decoded object: the replica count of the
  object read, when it has one, sits in a new cell at address \<open>a\<close>. (The addresses inside
  the client's own copies carry no meaning.)
\<close>

definition decode :: "nat \<Rightarrow> Deployment \<Rightarrow> Deployment" where
  "decode a d = d\<lparr>Spec := (Spec d)\<lparr>Replicas := map_option (\<lambda>p. (a, snd p)) (Replicas (Spec d))\<rparr>\<rparr>"

definition fetchDeployments :: "DeploymentController \<Rightarrow> DeploymentController \<times> err option" where
  "fetchDeployments c =
     (case Get (client c) (sourceNamespacedName c) of
        Inl e \<Rightarrow> (c, Some e)
      | Inr workload \<Rightarrow>
          (let c1 = c\<lparr>sourceDeploy := decode (nextAddr c) workload, nextAddr := nextAddr c + 1\<rparr>
           in case Get (client c1) (targetNamespacedName c1) of
                Inl e \<Rightarrow> (c1, Some e)
              | Inr workload' \<Rightarrow>
                  (c1\<lparr>targetDeploy := decode (nextAddr c1) workload', nextAddr := nextAddr c1 + 1\<rparr>,
                   None)))"

text \<open>\<^verbatim>\<open>calculateTargetSize\<close>: "source default is 1", the target's is 0.\<close>

definition calculateTargetSize :: "DeploymentController \<Rightarrow> DeploymentController \<times> int \<times> err option" where
  "calculateTargetSize c =
     (case fetchDeployments c of
        (c1, Some e) \<Rightarrow> (c1, - 1, Some e)
      | (c1, None) \<Rightarrow>
          (let sourceSize = (case Replicas (Spec (sourceDeploy c1)) of None \<Rightarrow> 1 | Some p \<Rightarrow> snd p);
               targetSize = (case Replicas (Spec (targetDeploy c1)) of None \<Rightarrow> 0 | Some p \<Rightarrow> snd p)
           in (c1, int32 (sourceSize + targetSize), None)))"

text \<open>\<^verbatim>\<open>VerifySumOfBatchSizes\<close> lives in another file of the package that is not part
  of the sources; \<^verbatim>\<open>verifyRolloutBatchReplicaValue\<close> takes it as a parameter.\<close>

definition verifyRolloutBatchReplicaValue ::
  "(RolloutPlan \<Rightarrow> int \<Rightarrow> err option) \<Rightarrow> int \<Rightarrow> DeploymentController \<Rightarrow> err option" where
  "verifyRolloutBatchReplicaValue VerifySumOfBatchSizes totalReplicas c =
     (case TargetSize (rolloutSpec c) of
        None \<Rightarrow> VerifySumOfBatchSizes (rolloutSpec c) totalReplicas
      | Some targetSize \<Rightarrow>
          if targetSize \<noteq> totalReplicas then Some (AttemptToScale targetSize totalReplicas)
          else VerifySumOfBatchSizes (rolloutSpec c) totalReplicas)"

text \<open>
  The helpers that take a \<^verbatim>\<open>*apps.Deployment\<close> are called with \<^verbatim>\<open>&c.sourceDeploy\<close> or
  \<^verbatim>\<open>&c.targetDeploy\<close> only; the argument is modelled by saying which of the two.
\<close>

datatype workload = SourceDeploy | TargetDeploy

definition deployOf :: "workload \<Rightarrow> DeploymentController \<Rightarrow> Deployment" where
  "deployOf w c = (case w of SourceDeploy \<Rightarrow> sourceDeploy c | TargetDeploy \<Rightarrow> targetDeploy c)"

definition setDeploy :: "workload \<Rightarrow> Deployment \<Rightarrow> DeploymentController \<Rightarrow> DeploymentController" where
  "setDeploy w d c = (case w of SourceDeploy \<Rightarrow> c\<lparr>sourceDeploy := d\<rparr> | TargetDeploy \<Rightarrow> c\<lparr>targetDeploy := d\<rparr>)"

text \<open>
  \<^verbatim>\<open>client.Patch\<close> of the object \<open>obj\<close>, changed in place since it was read: it fails with
  the error the client holds for that object, or the cluster's copy becomes \<open>obj\<close>.
\<close>

definition Patch :: "Deployment \<Rightarrow> DeploymentController \<Rightarrow> DeploymentController \<times> err option" where
  "Patch obj c =
     (case PatchError (client c) (Name obj) of
        Some e \<Rightarrow> (c, Some e)
      | None \<Rightarrow> (c\<lparr>client := (client c)\<lparr>Get := (Get (client c))(Name obj := Inr obj)\<rparr>\<rparr>, None))"

definition patchDeployment :: "int \<Rightarrow> workload \<Rightarrow> DeploymentController \<Rightarrow> DeploymentController \<times> err option" where
  "patchDeployment target w c =
     (case Int32Ptr target c of
        (p, c1) \<Rightarrow>
          (let deploy = (deployOf w c1)\<lparr>Spec := (Spec (deployOf w c1))\<lparr>Replicas := p\<rparr>\<rparr>
           in Patch deploy (setDeploy w deploy c1)))"

text \<open>The kind and the group/version of the rollout resource (\<^verbatim>\<open>v1alpha2.AppRolloutKind\<close>,
  \<^verbatim>\<open>v1alpha2.SchemeGroupVersion\<close> of the package \<^verbatim>\<open>apis/core.oam.dev/v1alpha2\<close>).\<close>

definition AppRolloutKind :: string where
  "AppRolloutKind = ''AppRollout''"

definition SchemeGroupVersion :: string where
  "SchemeGroupVersion = ''core.oam.dev/v1alpha2''"

text \<open>\<^verbatim>\<open>metav1.NewControllerRef\<close> and \<^verbatim>\<open>metav1.GetControllerOf\<close> of the Kubernetes
  library: the reference of a controlling owner, and the first owner reference of an
  object whose \<open>Controller\<close> flag is set and true.\<close>

definition NewControllerRef :: "ParentController \<Rightarrow> OwnerReference" where
  "NewControllerRef owner =
     \<lparr>APIVersion = SchemeGroupVersion, Kind = AppRolloutKind, RefName = ParentName owner,
      UID = ParentUID owner, Controller = Some True, BlockOwnerDeletion = Some True\<rparr>"

definition GetControllerOf :: "Deployment \<Rightarrow> OwnerReference option" where
  "GetControllerOf d = find (\<lambda>r. Controller r = Some True) (OwnerReferences d)"

definition claimDeployment :: "workload \<Rightarrow> DeploymentController \<Rightarrow> DeploymentController \<times> err option" where
  "claimDeployment w c =
     (let ref = NewControllerRef (parentController c);
          deploy = (deployOf w c)\<lparr>OwnerReferences := OwnerReferences (deployOf w c) @ [ref],
                                  Spec := (Spec (deployOf w c))\<lparr>Paused := False\<rparr>\<rparr>
      in Patch deploy (setDeploy w deploy c))"

text \<open>The loop of \<^verbatim>\<open>releaseDeployment\<close> over the owner references: the references of
  the rollout's kind and group/version are skipped, the others are kept in order.\<close>

fun releaseLoop :: "OwnerReference list \<Rightarrow> OwnerReference list \<Rightarrow> bool \<Rightarrow> OwnerReference list \<times> bool" where
  "releaseLoop [] newOwnerList found = (newOwnerList, found)"
| "releaseLoop (owner # owners) newOwnerList found =
     (if Kind owner = AppRolloutKind \<and> APIVersion owner = SchemeGroupVersion
      then releaseLoop owners newOwnerList True
      else releaseLoop owners (newOwnerList @ [owner]) found)"

definition releaseDeployment :: "workload \<Rightarrow> DeploymentController \<Rightarrow> DeploymentController \<times> err option" where
  "releaseDeployment w c =
     (case releaseLoop (OwnerReferences (deployOf w c)) [] False of
        (newOwnerList, found) \<Rightarrow>
          if \<not> found then (c, None)
          else
            (let deploy = (deployOf w c)\<lparr>OwnerReferences := newOwnerList\<rparr>
             in case Patch deploy (setDeploy w deploy c) of
                  (c1, Some e) \<Rightarrow> (retry (ErrorText e) c1, Some e)
                | (c1, None) \<Rightarrow> (c1, None)))"

text \<open>\<^verbatim>\<open>c.rolloutSpec.RolloutBatches[i]\<close> panics when the index is out of range.\<close>

definition batchAt :: "RolloutBatch list \<Rightarrow> int \<Rightarrow> panic + RolloutBatch" where
  "batchAt bs i = (if 0 \<le> i \<and> i < int (length bs) then Inr (bs ! nat i) else Inl IndexOutOfRange)"

definition rolloutBatchFirstHalf :: "string \<Rightarrow> DeploymentController \<Rightarrow> DeploymentController \<times> err option" where
  "rolloutBatchFirstHalf rolloutStrategy c =
     (if rolloutStrategy = IncreaseFirstRolloutStrategyType then
        (case patchDeployment (calculateCurrentTarget c (RolloutTargetSize (rolloutStatus c))) TargetDeploy c of
           (c1, Some e) \<Rightarrow> (retry (ErrorText e) c1, None)
         | (c1, None) \<Rightarrow> (c1, None))
      else if rolloutStrategy = DecreaseFirstRolloutStrategyType then
        (case patchDeployment (calculateCurrentSource c (RolloutTargetSize (rolloutStatus c))) SourceDeploy c of
           (c1, Some e) \<Rightarrow> (retry (ErrorText e) c1, None)
         | (c1, None) \<Rightarrow> (c1, None))
      else (c, Some (UnknownRolloutStrategy rolloutStrategy)))"

definition rolloutBatchSecondHalf ::
  "string \<Rightarrow> int \<Rightarrow> DeploymentController \<Rightarrow> panic + (DeploymentController \<times> bool)" where
  "rolloutBatchSecondHalf rolloutStrategy targetSize c =
     (if rolloutStrategy = IncreaseFirstRolloutStrategyType then
        (case batchAt (RolloutBatches (rolloutSpec c)) (CurrentBatch (rolloutStatus c)) of
           Inl p \<Rightarrow> Inl p
         | Inr currentBatch \<Rightarrow>
             (let maxUnavail =
                    (case MaxUnavailable currentBatch of
                       None \<Rightarrow> 0
                     | Some m \<Rightarrow> fst (GetValueFromIntOrPercent (Some m) targetSize True))
              in if int32 (ReadyReplicas (Status (targetDeploy c)) + int32 maxUnavail) \<ge> targetSize
                 then
                   (case patchDeployment (calculateCurrentSource c (RolloutTargetSize (rolloutStatus c)))
                           SourceDeploy c of
                      (c1, Some e) \<Rightarrow> Inr (retry (ErrorText e) c1, False)
                    | (c1, None) \<Rightarrow> Inr (c1, True))
                 else
                   Inr (retry (TargetPodsNotReady (CurrentBatch (rolloutStatus c))
                                 (ReadyReplicas (Status (targetDeploy c)))) c, False)))
      else if rolloutStrategy = DecreaseFirstRolloutStrategyType then
        (let sourceSize = calculateCurrentSource c (RolloutTargetSize (rolloutStatus c))
         in if StatusReplicas (Status (sourceDeploy c)) = sourceSize
            then
              (case patchDeployment targetSize TargetDeploy c of
                 (c1, Some e) \<Rightarrow> Inr (retry (ErrorText e) c1, False)
               | (c1, None) \<Rightarrow> Inr (c1, True))
            else
              Inr (retry (SourcePodsNotReady (CurrentBatch (rolloutStatus c))
                            (StatusReplicas (Status (sourceDeploy c)))) c, False))
      else Inr (c, True))"

subsection \<open>The phases\<close>

text \<open>The last two checks of \<^verbatim>\<open>VerifySpec\<close>: neither deployment may have a
  controller yet.\<close>

definition VerifySpecOwners :: "DeploymentController \<Rightarrow> DeploymentController \<times> bool \<times> err option" where
  "VerifySpecOwners c =
     (case GetControllerOf (targetDeploy c) of
        Some controller \<Rightarrow> (c, False, Some (TargetHasController (Name (targetDeploy c)) controller))
      | None \<Rightarrow>
          (case GetControllerOf (sourceDeploy c) of
             Some controller \<Rightarrow> (c, False, Some (SourceHasController (Name (sourceDeploy c)) controller))
           | None \<Rightarrow> (c, True, None)))"

text \<open>\<^verbatim>\<open>utils.ComputeSpecHash\<close> is not part of the sources either; \<^verbatim>\<open>VerifySpec\<close>
  takes it as a parameter too. The deferred function of the source only logs; the model
  has none.\<close>

definition VerifySpec ::
  "(DeploymentSpec \<Rightarrow> err + string) \<Rightarrow> (RolloutPlan \<Rightarrow> int \<Rightarrow> err option) \<Rightarrow>
   DeploymentController \<Rightarrow> DeploymentController \<times> bool \<times> err option" where
  "VerifySpec ComputeSpecHash VerifySumOfBatchSizes c =
     (case calculateTargetSize c of
        (c1, totalReplicas, Some verifyErr) \<Rightarrow> (retry (ErrorText verifyErr) c1, False, None)
      | (c1, totalReplicas, None) \<Rightarrow>
          (let c2 = c1\<lparr>rolloutStatus := (rolloutStatus c1)\<lparr>RolloutTargetSize := totalReplicas\<rparr>\<rparr>
           in case ComputeSpecHash (Spec (targetDeploy c2)) of
                Inl verifyErr \<Rightarrow> (retry (ErrorText verifyErr) c2, False, None)
              | Inr targetHash \<Rightarrow>
                  if targetHash = LastAppliedPodTemplateIdentifier (rolloutStatus c2)
                  then (c2, False, Some (NoDifference targetHash))
                  else
                    (let c3 = c2\<lparr>rolloutStatus :=
                                   (rolloutStatus c2)\<lparr>NewPodTemplateIdentifier := targetHash\<rparr>\<rparr>
                     in case verifyRolloutBatchReplicaValue VerifySumOfBatchSizes totalReplicas c3 of
                          Some verifyErr \<Rightarrow> (c3, False, Some verifyErr)
                        | None \<Rightarrow>
                            if Paused (Spec (targetDeploy c3)) then VerifySpecOwners c3
                            else
                              (case Int32Ptr 0 c3 of
                                 (p, c4) \<Rightarrow>
                                   if \<not> ptr_eq (Replicas (Spec (targetDeploy c4))) p
                                   then (c4, False, Some (MiddleOfUpdating (Name (sourceDeploy c4))))
                                   else VerifySpecOwners c4))))"

definition Initialize :: "DeploymentController \<Rightarrow> DeploymentController \<times> bool \<times> err option" where
  "Initialize c =
     (case fetchDeployments c of
        (c1, Some e) \<Rightarrow> (retry (ErrorText e) c1, False, None)
      | (c1, None) \<Rightarrow>
          (case claimDeployment SourceDeploy c1 of
             (c2, Some e) \<Rightarrow> (retry (ErrorText e) c2, False, None)
           | (c2, None) \<Rightarrow>
               (case claimDeployment TargetDeploy c2 of
                  (c3, Some e) \<Rightarrow> (retry (ErrorText e) c3, False, None)
                | (c3, None) \<Rightarrow> (c3, True, None))))"

text \<open>\<^verbatim>\<open>*c.sourceDeploy.Spec.Replicas + *c.targetDeploy.Spec.Replicas\<close> panics when
  either pointer is \<^verbatim>\<open>nil\<close>.\<close>

definition RolloutOneBatchPods :: "DeploymentController \<Rightarrow> panic + (DeploymentController \<times> bool \<times> err option)" where
  "RolloutOneBatchPods c =
     (case fetchDeployments c of
        (c1, Some e) \<Rightarrow> Inr (c1, False, None)
      | (c1, None) \<Rightarrow>
          (case Replicas (Spec (sourceDeploy c1)) of
             None \<Rightarrow> Inl NilPointerDereference
           | Some ps \<Rightarrow>
               (case Replicas (Spec (targetDeploy c1)) of
                  None \<Rightarrow> Inl NilPointerDereference
                | Some pt \<Rightarrow>
                    (let currentSizeSetting = int32 (snd ps + snd pt);
                         rolloutStrategy =
                           (if length (RolloutStrategy (rolloutSpec c1)) \<noteq> 0
                            then RolloutStrategy (rolloutSpec c1)
                            else IncreaseFirstRolloutStrategyType)
                     in if currentSizeSetting = RolloutTargetSize (rolloutStatus c1)
                        then
                          (case rolloutBatchFirstHalf rolloutStrategy c1 of
                             (c2, e) \<Rightarrow> Inr (c2, False, e))
                        else
                          (let targetSize = calculateCurrentTarget c1 (RolloutTargetSize (rolloutStatus c1))
                           in case rolloutBatchSecondHalf rolloutStrategy targetSize c1 of
                                Inl p \<Rightarrow> Inl p
                              | Inr (c2, ok) \<Rightarrow>
                                  if \<not> ok then Inr (c2, False, None)
                                  else Inr (c2\<lparr>rolloutStatus :=
                                                  (rolloutStatus c2)\<lparr>UpgradedReplicas := targetSize\<rparr>\<rparr>,
                                            True, None))))))"

definition CheckOneBatchPods :: "DeploymentController \<Rightarrow> panic + (DeploymentController \<times> bool \<times> err option)" where
  "CheckOneBatchPods c =
     (case fetchDeployments c of
        (c1, Some e) \<Rightarrow> Inr (c1, False, None)
      | (c1, None) \<Rightarrow>
          (let readyTargetPodCount = ReadyReplicas (Status (targetDeploy c1));
               sourcePodCount = StatusReplicas (Status (sourceDeploy c1))
           in case batchAt (RolloutBatches (rolloutSpec c1)) (CurrentBatch (rolloutStatus c1)) of
                Inl p \<Rightarrow> Inl p
              | Inr currentBatch \<Rightarrow>
                  (let targetGoal = calculateCurrentTarget c1 (RolloutTargetSize (rolloutStatus c1));
                       sourceGoal = calculateCurrentSource c1 (RolloutTargetSize (rolloutStatus c1));
                       maxUnavail =
                         (case MaxUnavailable currentBatch of
                            None \<Rightarrow> 0
                          | Some m \<Rightarrow> fst (GetValueFromIntOrPercent (Some m) targetGoal True))
                   in if sourcePodCount \<noteq> sourceGoal \<or>
                         int32 (int32 (int32 maxUnavail + readyTargetPodCount) + sourcePodCount)
                           < RolloutTargetSize (rolloutStatus c1)
                      then
                        Inr (retry (BatchNotReady (CurrentBatch (rolloutStatus c1)) readyTargetPodCount
                                      sourcePodCount maxUnavail) c1,
                             False, None)
                      else
                        Inr (c1\<lparr>rolloutStatus :=
                                  (rolloutStatus c1)
                                    \<lparr>UpgradedReadyReplicas := readyTargetPodCount,
                                     LastAppliedPodTemplateIdentifier :=
                                       NewPodTemplateIdentifier (rolloutStatus c1)\<rparr>\<rparr>,
                             True, None))))"

text \<open>\<^verbatim>\<open>FinalizeOneBatch\<close>: "nothing to do for Deployment for now".\<close>

definition FinalizeOneBatch :: "DeploymentController \<Rightarrow> DeploymentController \<times> bool \<times> err option" where
  "FinalizeOneBatch c = (c, False, None)"

text \<open>\<^verbatim>\<open>Finalize\<close> releases the two local copies as they are; it does not fetch.\<close>

definition Finalize :: "bool \<Rightarrow> DeploymentController \<Rightarrow> DeploymentController \<times> bool" where
  "Finalize succeed c =
     (case releaseDeployment SourceDeploy c of
        (c1, Some e) \<Rightarrow> (retry (ErrorText e) c1, False)
      | (c1, None) \<Rightarrow>
          (case releaseDeployment TargetDeploy c1 of
             (c2, Some e) \<Rightarrow> (retry (ErrorText e) c2, False)
           | (c2, None) \<Rightarrow> (c2, True)))"

subsection \<open>Observations and example states\<close>

text \<open>The desired replica count of a deployment, \<open>None\<close> when unset; and the desired
  replica count of the deployment the cluster holds under a name.\<close>

definition specReplicas :: "Deployment \<Rightarrow> int option" where
  "specReplicas d = map_option snd (Replicas (Spec d))"

definition clusterReplicas :: "DeploymentController \<Rightarrow> string \<Rightarrow> int option" where
  "clusterReplicas c n = (case Get (client c) n of Inl e \<Rightarrow> None | Inr d \<Rightarrow> specReplicas d)"

text \<open>
  The states the scenarios run on: a plan of two batches of 50% each without a
  \<^verbatim>\<open>maxUnavailable\<close>, a rollout status at a batch with a target size, and a cluster that
  holds a deployment \<open>''source''\<close> and a deployment \<open>''target''\<close> and accepts every patch.
\<close>

definition halfBatch :: RolloutBatch where
  "halfBatch = \<lparr>BatchReplicas = StrPercent 50, MaxUnavailable = None\<rparr>"

definition twoHalves :: "string \<Rightarrow> RolloutPlan" where
  "twoHalves strategy =
     \<lparr>TargetSize = None, RolloutStrategy = strategy, RolloutBatches = [halfBatch, halfBatch]\<rparr>"

definition statusAt :: "int \<Rightarrow> int \<Rightarrow> RolloutStatus" where
  "statusAt currentBatch targetSize =
     \<lparr>CurrentBatch = currentBatch, RolloutTargetSize = targetSize,
      NewPodTemplateIdentifier = ''v2'', LastAppliedPodTemplateIdentifier = ''v1'',
      UpgradedReplicas = 0, UpgradedReadyReplicas = 0, RetryReason = None\<rparr>"

definition deployment :: "string \<Rightarrow> bool \<Rightarrow> int option \<Rightarrow> int \<Rightarrow> int \<Rightarrow> Deployment" where
  "deployment n paused replicas podCount ready =
     \<lparr>Name = n, OwnerReferences = [],
      Spec = \<lparr>Replicas = map_option (\<lambda>v. (0, v)) replicas, Paused = paused, Template = n\<rparr>,
      Status = \<lparr>StatusReplicas = podCount, ReadyReplicas = ready, UpdatedReplicas = ready\<rparr>\<rparr>"

definition cluster :: "Deployment \<Rightarrow> Deployment \<Rightarrow> Client" where
  "cluster src tgt =
     \<lparr>Get = (\<lambda>n. if n = ''source'' then Inr src else if n = ''target'' then Inr tgt
                 else Inl (NotFound n)),
      PatchError = (\<lambda>n. None)\<rparr>"

definition controller :: "RolloutPlan \<Rightarrow> RolloutStatus \<Rightarrow> Client \<Rightarrow> DeploymentController" where
  "controller plan st cl =
     \<lparr>client = cl, parentController = \<lparr>ParentName = ''rollout'', ParentUID = ''uid''\<rparr>,
      rolloutSpec = plan, rolloutStatus = st,
      targetNamespacedName = ''target'', sourceNamespacedName = ''source'',
      sourceDeploy = deployment [] False None 0 0, targetDeploy = deployment [] False None 0 0,
      nextAddr = 1\<rparr>"

text \<open>The controller of a rollout of 10 replicas over the two-batch plan, at a batch, on
  a cluster; and the two deployments by their desired replicas, pod count and ready pods.\<close>

definition rollout :: "string \<Rightarrow> int \<Rightarrow> Deployment \<Rightarrow> Deployment \<Rightarrow> DeploymentController" where
  "rollout strategy currentBatch src tgt =
     controller (twoHalves strategy) (statusAt currentBatch 10) (cluster src tgt)"

definition source :: "int \<Rightarrow> int \<Rightarrow> Deployment" where
  "source replicas podCount = deployment ''source'' False (Some replicas) podCount podCount"

definition target :: "int \<Rightarrow> int \<Rightarrow> Deployment" where
  "target replicas ready = deployment ''target'' False (Some replicas) replicas ready"

text \<open>The owner references of the deployment the cluster holds under a name.\<close>

definition clusterOwners :: "DeploymentController \<Rightarrow> string \<Rightarrow> OwnerReference list" where
  "clusterOwners c n = (case Get (client c) n of Inl e \<Rightarrow> [] | Inr d \<Rightarrow> OwnerReferences d)"

text \<open>The states \<^verbatim>\<open>VerifySpec\<close> is run on: a rollout status that has not been verified
  yet, a plan that may declare a target size, a hash function that reads the template, and
  a batch-size check that accepts every plan.\<close>

definition unverified :: "int option \<Rightarrow> Deployment \<Rightarrow> Deployment \<Rightarrow> DeploymentController" where
  "unverified targetSize src tgt =
     controller ((twoHalves [])\<lparr>TargetSize := targetSize\<rparr>) (statusAt 0 0) (cluster src tgt)"

definition templateHash :: "DeploymentSpec \<Rightarrow> err + string" where
  "templateHash spec = Inr (Template spec)"

definition anyBatches :: "RolloutPlan \<Rightarrow> int \<Rightarrow> err option" where
  "anyBatches plan totalReplicas = None"

text \<open>The number of unavailable pods a batch allows against a goal, as
  \<^verbatim>\<open>rolloutBatchSecondHalf\<close> and \<^verbatim>\<open>CheckOneBatchPods\<close> compute it: 0 when the batch
  has no \<^verbatim>\<open>maxUnavailable\<close>.\<close>

definition maxUnavailOf :: "RolloutBatch \<Rightarrow> int \<Rightarrow> int" where
  "maxUnavailOf currentBatch goal =
     (case MaxUnavailable currentBatch of
        None \<Rightarrow> 0
      | Some m \<Rightarrow> fst (GetValueFromIntOrPercent (Some m) goal True))"

text \<open>The same rollout of 10 replicas over two batches of 50%, each batch with a
  \<^verbatim>\<open>maxUnavailable\<close> of 100%.\<close>

definition tolerantBatch :: RolloutBatch where
  "tolerantBatch = \<lparr>BatchReplicas = StrPercent 50, MaxUnavailable = Some (StrPercent 100)\<rparr>"

definition tolerantRollout :: "string \<Rightarrow> int \<Rightarrow> Deployment \<Rightarrow> Deployment \<Rightarrow> DeploymentController" where
  "tolerantRollout strategy currentBatch src tgt =
     controller \<lparr>TargetSize = None, RolloutStrategy = strategy,
                 RolloutBatches = [tolerantBatch, tolerantBatch]\<rparr>
       (statusAt currentBatch 10) (cluster src tgt)"

section \<open>Properties\<close>

subsection \<open>Helper facts\<close>

lemmas phase_defs = RolloutOneBatchPods_def CheckOneBatchPods_def fetchDeployments_def decode_def
  rolloutBatchFirstHalf_def rolloutBatchSecondHalf_def patchDeployment_def Patch_def Int32Ptr_def
  calculateCurrentTarget_def calculateCurrentSource_def GetValueFromIntOrPercent_def batchAt_def
  deployOf_def setDeploy_def retry_def RolloutRetry_def int32_def
  IncreaseFirstRolloutStrategyType_def DecreaseFirstRolloutStrategyType_def Let_def

lemmas example_defs = specReplicas_def clusterReplicas_def halfBatch_def twoHalves_def statusAt_def
  deployment_def cluster_def controller_def rollout_def source_def target_def
  unverified_def templateHash_def anyBatches_def clusterOwners_def tolerantBatch_def
  tolerantRollout_def

text \<open>A fetch changes the two local copies and the allocator only.\<close>

lemma fetchDeployments_frame:
  assumes "fetchDeployments c = (c1, fe)"
  shows "rolloutStatus c1 = rolloutStatus c \<and> rolloutSpec c1 = rolloutSpec c \<and>
         client c1 = client c \<and> parentController c1 = parentController c"
  using assms by (auto simp: fetchDeployments_def Let_def split: sum.splits)

subsection \<open>Batch goals\<close>

text \<open>Within its range an \<^verbatim>\<open>int32\<close> is its own conversion.\<close>

lemma int32_id: "0 \<le> x \<Longrightarrow> x < 2147483648 \<Longrightarrow> int32 x = x"
  unfolding int32_def by (simp add: mod_pos_pos_trivial)

lemma sum_take_mono:
  fixes xs :: "int list"
  assumes "\<forall>x\<in>set xs. 0 \<le> x" and "n \<le> m"
  shows "sum_list (take n xs) \<le> sum_list (take m xs)"
proof -
  from assms(2) have "take m xs = take n xs @ take (m - n) (drop n xs)"
    using take_add [of n "m - n" xs] by simp
  moreover have "0 \<le> sum_list (take (m - n) (drop n xs))"
  proof (rule sum_list_nonneg)
    fix x assume "x \<in> set (take (m - n) (drop n xs))"
    then have "x \<in> set xs"
      by (blast dest: in_set_takeD in_set_dropD)
    with assms(1) show "0 \<le> x" by simp
  qed
  ultimately show ?thesis by simp
qed

lemma targetLoop_step:
  "targetLoop (r # rs) t cb i acc =
     (if i \<le> cb then targetLoop rs t cb (i + 1) (int32 (acc + resolvedSize t r)) else acc)"
  by (simp add: Let_def resolvedSize_def)

lemma targetLoop_sum:
  assumes "\<forall>r\<in>set bs. 0 \<le> resolvedSize t r"
    and "0 \<le> acc"
    and "acc + sum_list (map (resolvedSize t) (take (nat (cb + 1 - i)) bs)) < 2147483648"
  shows "targetLoop bs t cb i acc = acc + sum_list (map (resolvedSize t) (take (nat (cb + 1 - i)) bs))"
  using assms
proof (induction bs arbitrary: i acc)
  case Nil
  then show ?case by simp
next
  case (Cons r rs)
  show ?case
  proof (cases "i \<le> cb")
    case False
    then show ?thesis by (simp add: targetLoop_step del: targetLoop.simps)
  next
    case True
    define n where "n = nat (cb - i)"
    from True have n: "nat (cb + 1 - i) = Suc n"
      unfolding n_def by linarith
    have n': "nat (cb + 1 - (i + 1)) = n"
      unfolding n_def by simp
    from Cons.prems have r0: "0 \<le> resolvedSize t r" by simp
    have s0: "0 \<le> sum_list (map (resolvedSize t) (take n rs))"
    proof (rule sum_list_nonneg)
      fix x assume "x \<in> set (map (resolvedSize t) (take n rs))"
      then obtain r' where "r' \<in> set (take n rs)" and "x = resolvedSize t r'"
        by auto
      with Cons.prems(1) show "0 \<le> x"
        by (auto dest: in_set_takeD)
    qed
    from Cons.prems(3) n have b: "acc + resolvedSize t r + sum_list (map (resolvedSize t) (take n rs)) < 2147483648"
      by simp
    from s0 r0 b Cons.prems(2) have w: "int32 (acc + resolvedSize t r) = acc + resolvedSize t r"
      using int32_id [of "acc + resolvedSize t r"] by linarith
    have "targetLoop rs t cb (i + 1) (acc + resolvedSize t r) =
          acc + resolvedSize t r + sum_list (map (resolvedSize t) (take (nat (cb + 1 - (i + 1))) rs))"
    proof (rule Cons.IH)
      from Cons.prems(1) show "\<forall>r\<in>set rs. 0 \<le> resolvedSize t r" by simp
      from Cons.prems(2) r0 show "0 \<le> acc + resolvedSize t r" by simp
      from b n' show "acc + resolvedSize t r +
          sum_list (map (resolvedSize t) (take (nat (cb + 1 - (i + 1))) rs)) < 2147483648"
        by simp
    qed
    with True w n n' show ?thesis
      by (simp add: targetLoop_step del: targetLoop.simps)
  qed
qed


lemma calculateCurrentTarget_prefix:
  assumes "\<forall>r\<in>set (RolloutBatches (rolloutSpec c)). 0 \<le> resolvedSize t r"
    and "sum_list (map (resolvedSize t) (butlast (RolloutBatches (rolloutSpec c)))) \<le> t"
    and "t < 2147483648"
    and "0 \<le> CurrentBatch (rolloutStatus c)"
    and "CurrentBatch (rolloutStatus c) + 1 < int (length (RolloutBatches (rolloutSpec c)))"
  shows "calculateCurrentTarget c t =
           sum_list (take (nat (CurrentBatch (rolloutStatus c)) + 1)
                          (map (resolvedSize t) (RolloutBatches (rolloutSpec c)))) \<and>
         calculateCurrentTarget c t \<le> t"
proof -
  let ?bs = "RolloutBatches (rolloutSpec c)"
  let ?i = "CurrentBatch (rolloutStatus c)"
  let ?sizes = "map (resolvedSize t) ?bs"
  have nonneg: "\<forall>x\<in>set ?sizes. 0 \<le> x"
    using assms(1) by auto
  from assms(4,5) have le: "nat ?i + 1 \<le> length ?bs - 1"
    by linarith
  have "sum_list (take (nat ?i + 1) ?sizes) \<le> sum_list (take (length ?bs - 1) ?sizes)"
    using nonneg le by (rule sum_take_mono)
  also have "take (length ?bs - 1) ?sizes = map (resolvedSize t) (butlast ?bs)"
    by (simp add: butlast_conv_take take_map)
  finally have P: "sum_list (take (nat ?i + 1) ?sizes) \<le> t"
    using assms(2) by simp
  from assms(4) have N: "nat (?i + 1 - 0) = nat ?i + 1"
    by linarith
  have "targetLoop ?bs t ?i 0 0 = 0 + sum_list (map (resolvedSize t) (take (nat (?i + 1 - 0)) ?bs))"
  proof (rule targetLoop_sum)
    from assms(1) show "\<forall>r\<in>set ?bs. 0 \<le> resolvedSize t r" .
    show "(0::int) \<le> 0" by simp
    from P assms(3) N show "0 + sum_list (map (resolvedSize t) (take (nat (?i + 1 - 0)) ?bs)) < 2147483648"
      by (simp add: take_map)
  qed
  with N have "targetLoop ?bs t ?i 0 0 = sum_list (take (nat ?i + 1) ?sizes)"
    by (simp add: take_map)
  moreover from assms(5) have "?i \<noteq> int (length ?bs) - 1"
    by simp
  ultimately have "calculateCurrentTarget c t = sum_list (take (nat ?i + 1) ?sizes)"
    by (simp add: calculateCurrentTarget_def)
  with P show ?thesis
    by simp
qed

text \<open>
  The target half of the monotonic progress: when every batch size resolves to a
  non-negative number and the batches before the last one sum to at most the total (so
  that nothing wraps around), the target goal of a batch is at most that of the next.
\<close>

lemma calculateCurrentTarget_mono:
  assumes "\<forall>r\<in>set (RolloutBatches (rolloutSpec c)). 0 \<le> resolvedSize t r"
    and "sum_list (map (resolvedSize t) (butlast (RolloutBatches (rolloutSpec c)))) \<le> t"
    and "t < 2147483648"
    and "0 \<le> CurrentBatch (rolloutStatus c)"
    and "CurrentBatch (rolloutStatus c) + 1 < int (length (RolloutBatches (rolloutSpec c)))"
  shows "calculateCurrentTarget c t \<le>
         calculateCurrentTarget
           (c\<lparr>rolloutStatus := (rolloutStatus c)\<lparr>CurrentBatch := CurrentBatch (rolloutStatus c) + 1\<rparr>\<rparr>) t"
proof -
  let ?bs = "RolloutBatches (rolloutSpec c)"
  let ?i = "CurrentBatch (rolloutStatus c)"
  let ?sizes = "map (resolvedSize t) ?bs"
  let ?c' = "c\<lparr>rolloutStatus := (rolloutStatus c)\<lparr>CurrentBatch := ?i + 1\<rparr>\<rparr>"
  from calculateCurrentTarget_prefix [OF assms]
  have L: "calculateCurrentTarget c t = sum_list (take (nat ?i + 1) ?sizes)"
    and U: "calculateCurrentTarget c t \<le> t"
    by simp_all
  show ?thesis
  proof (cases "?i + 1 = int (length ?bs) - 1")
    case True
    then have "calculateCurrentTarget ?c' t = t"
      by (simp add: calculateCurrentTarget_def)
    with U show ?thesis by simp
  next
    case False
    with assms(5) have lt: "CurrentBatch (rolloutStatus ?c') + 1 < int (length (RolloutBatches (rolloutSpec ?c')))"
      by simp
    have "calculateCurrentTarget ?c' t =
            sum_list (take (nat (CurrentBatch (rolloutStatus ?c')) + 1)
                           (map (resolvedSize t) (RolloutBatches (rolloutSpec ?c'))))"
      using calculateCurrentTarget_prefix [of ?c' t] assms(1,2,3,4) lt by simp
    moreover from assms(4) have "nat (?i + 1) + 1 = nat ?i + 2"
      by linarith
    ultimately have R: "calculateCurrentTarget ?c' t = sum_list (take (nat ?i + 2) ?sizes)"
      by simp
    have "\<forall>x\<in>set ?sizes. 0 \<le> x"
      using assms(1) by auto
    then have "sum_list (take (nat ?i + 1) ?sizes) \<le> sum_list (take (nat ?i + 2) ?sizes)"
      by (rule sum_take_mono) simp
    with L R show ?thesis
      by simp
  qed
qed

text \<open>Two batches of 50% of 10 replicas satisfy these conditions.\<close>

lemma calculateCurrentTarget_mono_example:
  "calculateCurrentTarget (rollout [] 0 (source 10 10) (target 0 0)) 10 \<le>
   calculateCurrentTarget (rollout [] 1 (source 10 10) (target 0 0)) 10"
proof -
  let ?k = "rollout [] 0 (source 10 10) (target 0 0)"
  have K: "?k\<lparr>rolloutStatus := (rolloutStatus ?k)\<lparr>CurrentBatch := CurrentBatch (rolloutStatus ?k) + 1\<rparr>\<rparr> =
           rollout [] 1 (source 10 10) (target 0 0)"
    by (simp add: example_defs)
  have "calculateCurrentTarget ?k 10 \<le>
        calculateCurrentTarget
          (?k\<lparr>rolloutStatus := (rolloutStatus ?k)\<lparr>CurrentBatch := CurrentBatch (rolloutStatus ?k) + 1\<rparr>\<rparr>) 10"
    by (rule calculateCurrentTarget_mono)
       (simp_all add: resolvedSize_def GetValueFromIntOrPercent_def int32_def example_defs)
  with K show ?thesis
    by simp
qed

lemma targetLoop_sourceLoop:
  "targetLoop bs totalSize currentBatch i acc = sourceLoop bs totalSize (currentBatch + 1) i acc"
  by (induction bs arbitrary: i acc) (simp_all add: Let_def)

text \<open>
  C3: the value \<^verbatim>\<open>calculateCurrentSource\<close> computes for batch \<open>i + 1\<close> is the value
  \<^verbatim>\<open>calculateCurrentTarget\<close> computes for batch \<open>i\<close>, whenever \<open>i\<close> is not the index of
  the last batch. The source goal is the sum of the batches already rolled out, so it moves
  with the target goal of the batch before, not against it.
\<close>

theorem calculateCurrentSource_next_batch:
  assumes "CurrentBatch (rolloutStatus c) \<noteq> int (length (RolloutBatches (rolloutSpec c))) - 1"
  shows "calculateCurrentSource
           (c\<lparr>rolloutStatus := (rolloutStatus c)\<lparr>CurrentBatch := CurrentBatch (rolloutStatus c) + 1\<rparr>\<rparr>)
           totalSize =
         calculateCurrentTarget c totalSize"
  using assms
  by (simp add: calculateCurrentSource_def calculateCurrentTarget_def targetLoop_sourceLoop)

text \<open>
  Two batches of 50% of 10 replicas: the source goal is 0 for batch 0 and 5 for batch 1,
  the target goal 5 for batch 0 and 10 for batch 1.
\<close>

theorem calculateCurrentSource_next_batch_witness:
  "calculateCurrentSource (rollout [] 0 (source 10 10) (target 0 0)) 10 = 0 \<and>
   calculateCurrentSource (rollout [] 1 (source 10 10) (target 0 0)) 10 = 5 \<and>
   calculateCurrentTarget (rollout [] 0 (source 10 10) (target 0 0)) 10 = 5 \<and>
   calculateCurrentTarget (rollout [] 1 (source 10 10) (target 0 0)) 10 = 10"
proof -
  let ?k = "rollout [] 0 (source 10 10) (target 0 0)"
  have N: "CurrentBatch (rolloutStatus ?k) \<noteq> int (length (RolloutBatches (rolloutSpec ?k))) - 1"
    by (simp add: example_defs)
  have K: "?k\<lparr>rolloutStatus := (rolloutStatus ?k)\<lparr>CurrentBatch := CurrentBatch (rolloutStatus ?k) + 1\<rparr>\<rparr> =
           rollout [] 1 (source 10 10) (target 0 0)"
    by (simp add: example_defs)
  have T: "calculateCurrentTarget ?k 10 = 5"
    by (simp add: calculateCurrentTarget_def GetValueFromIntOrPercent_def int32_def example_defs)
  have "calculateCurrentSource ?k 10 = 0"
    by (simp add: calculateCurrentSource_def GetValueFromIntOrPercent_def int32_def example_defs)
  moreover have "calculateCurrentTarget (rollout [] 1 (source 10 10) (target 0 0)) 10 = 10"
    by (simp add: calculateCurrentTarget_def example_defs)
  ultimately show ?thesis
    using calculateCurrentSource_next_batch [OF N, of 10] K T by simp
qed

subsection \<open>The phases of one batch\<close>

text \<open>
  The last batch of the plan, run by the code from a state in which the replicas add up to
  the target size (5 + 5 = 10): the first call raises the target to 10; with ten target
  pods ready the second call sets the source to its goal, which is 5 again.
\<close>

lemma last_batch_run:
  "(\<exists>c'. RolloutOneBatchPods (rollout ''IncreaseFirst'' 1 (source 5 5) (target 5 5)) = Inr (c', False, None) \<and>
         clusterReplicas c' ''source'' = Some 5 \<and> clusterReplicas c' ''target'' = Some 10) \<and>
   (\<exists>c'. RolloutOneBatchPods (rollout ''IncreaseFirst'' 1 (source 5 5) (target 10 10)) = Inr (c', True, None) \<and>
         clusterReplicas c' ''source'' = Some 5 \<and> clusterReplicas c' ''target'' = Some 10)"
  by (simp add: phase_defs example_defs)

text \<open>
  C1: in the state the run above ends in, \<^verbatim>\<open>CheckOneBatchPods\<close> reports the last batch
  done, while the source wants 5 replicas and the target 10, which is 15 and not the
  \<^verbatim>\<open>rolloutTargetSize\<close> of 10.
\<close>

theorem CheckOneBatchPods_done_sum_15:
  "\<exists>c'. CheckOneBatchPods (rollout ''IncreaseFirst'' 1 (source 5 5) (target 10 10)) = Inr (c', True, None) \<and>
        specReplicas (sourceDeploy c') = Some 5 \<and> specReplicas (targetDeploy c') = Some 10 \<and>
        RolloutTargetSize (rolloutStatus c') = 10"
  by (simp add: phase_defs example_defs)

theorem CheckOneBatchPods_done_sum_15_witness:
  "\<exists>c' s t. CheckOneBatchPods (rollout ''IncreaseFirst'' 1 (source 5 5) (target 10 10)) = Inr (c', True, None) \<and>
        specReplicas (sourceDeploy c') = Some s \<and> specReplicas (targetDeploy c') = Some t \<and>
        s + t \<noteq> RolloutTargetSize (rolloutStatus c')"
proof -
  from CheckOneBatchPods_done_sum_15 obtain c' where
    "CheckOneBatchPods (rollout ''IncreaseFirst'' 1 (source 5 5) (target 10 10)) = Inr (c', True, None)"
    and "specReplicas (sourceDeploy c') = Some 5" and "specReplicas (targetDeploy c') = Some 10"
    and "(5::int) + 10 \<noteq> RolloutTargetSize (rolloutStatus c')"
    by auto
  then show ?thesis
    by blast
qed

text \<open>
  C2, scenario A as the code runs it (10 replicas, two batches of 50%, IncreaseFirst, batch
  0). The first half patches the target to 5 and leaves the source at 10. The second half,
  with 5 target pods ready, patches the source to 0, not to 5. \<^verbatim>\<open>CheckOneBatchPods\<close>
  does not report done with 5 source pods and 5 ready target pods; it does not report done
  either in the state the second half leads to (no source pod, 5 ready target pods); it
  reports done with no source pod and 10 ready target pods.
\<close>

theorem scenario_A_run:
  "(\<exists>c'. RolloutOneBatchPods (rollout ''IncreaseFirst'' 0 (source 10 10) (target 0 0)) = Inr (c', False, None) \<and>
         clusterReplicas c' ''source'' = Some 10 \<and> clusterReplicas c' ''target'' = Some 5) \<and>
   (\<exists>c'. RolloutOneBatchPods (rollout ''IncreaseFirst'' 0 (source 10 10) (target 5 5)) = Inr (c', True, None) \<and>
         clusterReplicas c' ''source'' = Some 0 \<and> clusterReplicas c' ''target'' = Some 5) \<and>
   (\<exists>c'. CheckOneBatchPods (rollout ''IncreaseFirst'' 0 (source 5 5) (target 5 5)) = Inr (c', False, None)) \<and>
   (\<exists>c'. CheckOneBatchPods (rollout ''IncreaseFirst'' 0 (source 0 0) (target 5 5)) = Inr (c', False, None)) \<and>
   (\<exists>c'. CheckOneBatchPods (rollout ''IncreaseFirst'' 0 (source 0 0) (target 10 10)) = Inr (c', True, None))"
  by (simp add: phase_defs example_defs)

theorem scenario_A_run_witness:
  "\<exists>c'. RolloutOneBatchPods (rollout ''IncreaseFirst'' 0 (source 10 10) (target 5 5)) = Inr (c', True, None) \<and>
        clusterReplicas c' ''source'' \<noteq> Some 5"
proof -
  from scenario_A_run obtain c' where
    "RolloutOneBatchPods (rollout ''IncreaseFirst'' 0 (source 10 10) (target 5 5)) = Inr (c', True, None)"
    and "clusterReplicas c' ''source'' = Some 0"
    by blast
  then show ?thesis
    by auto
qed

text \<open>What a patch of the replica count returns and leaves behind: the client's answer
  for the object; on success the cluster's copy wants the new count, on failure the cluster
  is as before.\<close>

lemma patchDeployment_result:
  assumes "patchDeployment t w c = (c', eo)"
  shows "eo = PatchError (client c) (Name (deployOf w c)) \<and>
         (eo = None \<longrightarrow> clusterReplicas c' (Name (deployOf w c)) = Some t) \<and>
         (eo \<noteq> None \<longrightarrow> client c' = client c)"
  using assms
  by (cases w)
     (auto simp: patchDeployment_def Patch_def Int32Ptr_def deployOf_def setDeploy_def Let_def
                 clusterReplicas_def specReplicas_def
           split: option.splits)

lemma retry_client: "client (retry r c) = client c"
  by (simp add: retry_def)

text \<open>The second half under IncreaseFirst: the patch of the source is submitted when the
  target's ready pods plus the allowed unavailable pods reach the target goal.\<close>

lemma rolloutBatchSecondHalf_IncreaseFirst:
  assumes "rolloutBatchSecondHalf IncreaseFirstRolloutStrategyType targetSize c = Inr (c2, ok)"
  shows "\<exists>b. batchAt (RolloutBatches (rolloutSpec c)) (CurrentBatch (rolloutStatus c)) = Inr b \<and>
             (ok \<longleftrightarrow>
                targetSize \<le> int32 (ReadyReplicas (Status (targetDeploy c)) + int32 (maxUnavailOf b targetSize)) \<and>
                PatchError (client c) (Name (sourceDeploy c)) = None) \<and>
             (ok \<longrightarrow> clusterReplicas c2 (Name (sourceDeploy c)) =
                       Some (calculateCurrentSource c (RolloutTargetSize (rolloutStatus c)))) \<and>
             (\<not> ok \<longrightarrow> client c2 = client c)"
proof (cases "batchAt (RolloutBatches (rolloutSpec c)) (CurrentBatch (rolloutStatus c))")
  case (Inl p)
  with assms show ?thesis
    by (simp add: rolloutBatchSecondHalf_def)
next
  case (Inr b)
  let ?ready = "targetSize \<le> int32 (ReadyReplicas (Status (targetDeploy c)) + int32 (maxUnavailOf b targetSize))"
  show ?thesis
  proof (cases ?ready)
    case False
    with assms Inr have "c2 = retry (TargetPodsNotReady (CurrentBatch (rolloutStatus c))
                                       (ReadyReplicas (Status (targetDeploy c)))) c" and "\<not> ok"
      by (auto simp: rolloutBatchSecondHalf_def maxUnavailOf_def Let_def)
    with Inr False show ?thesis
      by (simp add: retry_client)
  next
    case True
    obtain c1 eo where P: "patchDeployment (calculateCurrentSource c (RolloutTargetSize (rolloutStatus c)))
                             SourceDeploy c = (c1, eo)"
      by (cases "patchDeployment (calculateCurrentSource c (RolloutTargetSize (rolloutStatus c)))
                   SourceDeploy c")
    from patchDeployment_result [OF P]
    have E: "eo = PatchError (client c) (Name (sourceDeploy c))"
      and S: "eo = None \<longrightarrow> clusterReplicas c1 (Name (sourceDeploy c)) =
                Some (calculateCurrentSource c (RolloutTargetSize (rolloutStatus c)))"
      and F: "eo \<noteq> None \<longrightarrow> client c1 = client c"
      by (simp_all add: deployOf_def)
    show ?thesis
    proof (cases eo)
      case None
      with assms Inr True P have "c2 = c1" and "ok"
        by (auto simp: rolloutBatchSecondHalf_def maxUnavailOf_def Let_def)
      with Inr True None E S show ?thesis
        by simp
    next
      case (Some x)
      with assms Inr True P have "c2 = retry (ErrorText x) c1" and "\<not> ok"
        by (auto simp: rolloutBatchSecondHalf_def maxUnavailOf_def Let_def)
      with Inr Some E F show ?thesis
        by (simp add: retry_client)
    qed
  qed
qed

text \<open>The second half under DecreaseFirst: the patch of the target is submitted when the
  source's pod count is the source goal.\<close>

lemma rolloutBatchSecondHalf_DecreaseFirst:
  assumes "rolloutBatchSecondHalf DecreaseFirstRolloutStrategyType targetSize c = Inr (c2, ok)"
  shows "(ok \<longleftrightarrow>
            StatusReplicas (Status (sourceDeploy c)) =
              calculateCurrentSource c (RolloutTargetSize (rolloutStatus c)) \<and>
            PatchError (client c) (Name (targetDeploy c)) = None) \<and>
         (ok \<longrightarrow> clusterReplicas c2 (Name (targetDeploy c)) = Some targetSize) \<and>
         (\<not> ok \<longrightarrow> client c2 = client c)"
proof -
  have D: "DecreaseFirstRolloutStrategyType \<noteq> IncreaseFirstRolloutStrategyType"
    by (simp add: DecreaseFirstRolloutStrategyType_def IncreaseFirstRolloutStrategyType_def)
  let ?ready = "StatusReplicas (Status (sourceDeploy c)) =
                  calculateCurrentSource c (RolloutTargetSize (rolloutStatus c))"
  show ?thesis
  proof (cases ?ready)
    case False
    with assms D have "c2 = retry (SourcePodsNotReady (CurrentBatch (rolloutStatus c))
                                     (StatusReplicas (Status (sourceDeploy c)))) c" and "\<not> ok"
      by (auto simp: rolloutBatchSecondHalf_def Let_def)
    with False show ?thesis
      by (simp add: retry_client)
  next
    case True
    obtain c1 eo where P: "patchDeployment targetSize TargetDeploy c = (c1, eo)"
      by (cases "patchDeployment targetSize TargetDeploy c")
    from patchDeployment_result [OF P]
    have E: "eo = PatchError (client c) (Name (targetDeploy c))"
      and S: "eo = None \<longrightarrow> clusterReplicas c1 (Name (targetDeploy c)) = Some targetSize"
      and F: "eo \<noteq> None \<longrightarrow> client c1 = client c"
      by (simp_all add: deployOf_def)
    show ?thesis
    proof (cases eo)
      case None
      with assms D True P have "c2 = c1" and "ok"
        by (auto simp: rolloutBatchSecondHalf_def Let_def)
      with True None E S show ?thesis
        by simp
    next
      case (Some x)
      with assms D True P have "c2 = retry (ErrorText x) c1" and "\<not> ok"
        by (auto simp: rolloutBatchSecondHalf_def Let_def)
      with Some E F show ?thesis
        by (simp add: retry_client)
    qed
  qed
qed

text \<open>What \<^verbatim>\<open>RolloutOneBatchPods\<close> returns in terms of its second half.\<close>

lemma RolloutOneBatchPods_second_half:
  assumes "RolloutOneBatchPods c = Inr (c', done, e)"
    and "fetchDeployments c = (c1, fe)"
  shows "(fe \<noteq> None \<longrightarrow> \<not> done) \<and>
         (fe = None \<longrightarrow>
           (\<exists>ps pt. Replicas (Spec (sourceDeploy c1)) = Some ps \<and>
                    Replicas (Spec (targetDeploy c1)) = Some pt \<and>
                    (if int32 (snd ps + snd pt) = RolloutTargetSize (rolloutStatus c1) then \<not> done
                     else \<exists>c2. rolloutBatchSecondHalf
                                  (if length (RolloutStrategy (rolloutSpec c1)) \<noteq> 0
                                   then RolloutStrategy (rolloutSpec c1)
                                   else IncreaseFirstRolloutStrategyType)
                                  (calculateCurrentTarget c1 (RolloutTargetSize (rolloutStatus c1))) c1 =
                                Inr (c2, done) \<and>
                              client c' = client c2 \<and> (done \<longrightarrow> e = None))))"
proof (cases fe)
  case (Some x)
  with assms show ?thesis
    by (auto simp: RolloutOneBatchPods_def)
next
  case None
  note fetched = this
  show ?thesis
  proof (cases "Replicas (Spec (sourceDeploy c1))")
    case None
    with assms fetched show ?thesis
      by (simp add: RolloutOneBatchPods_def)
  next
    case (Some ps)
    note src = this
    show ?thesis
    proof (cases "Replicas (Spec (targetDeploy c1))")
      case None
      with assms fetched src show ?thesis
        by (simp add: RolloutOneBatchPods_def)
    next
      case (Some pt)
      note tgt = this
      show ?thesis
      proof (cases "int32 (snd ps + snd pt) = RolloutTargetSize (rolloutStatus c1)")
        case True
        with assms fetched src tgt have "\<not> done"
          by (auto simp: RolloutOneBatchPods_def Let_def split: prod.splits)
        with fetched src tgt True show ?thesis
          by simp
      next
        case False
        note secondHalf = this
        let ?r = "rolloutBatchSecondHalf
              (if length (RolloutStrategy (rolloutSpec c1)) \<noteq> 0
               then RolloutStrategy (rolloutSpec c1) else IncreaseFirstRolloutStrategyType)
              (calculateCurrentTarget c1 (RolloutTargetSize (rolloutStatus c1))) c1"
        show ?thesis
        proof (cases ?r)
          case (Inl p)
          with assms fetched src tgt secondHalf show ?thesis
            by (simp add: RolloutOneBatchPods_def Let_def)
        next
          case (Inr r)
          then obtain c2 ok where R: "?r = Inr (c2, ok)"
            by (cases r) simp
          from assms fetched src tgt secondHalf R
          have "done = ok" and "done \<longrightarrow> e = None" and "client c' = client c2"
            by (auto simp: RolloutOneBatchPods_def Let_def split: if_splits)
          with fetched src tgt secondHalf R show ?thesis
            by simp
        qed
      qed
    qed
  qed
qed

text \<open>
  C6, as the code has it, for the strategies IncreaseFirst and DecreaseFirst (an empty
  strategy is IncreaseFirst). \<^verbatim>\<open>RolloutOneBatchPods\<close> reports done exactly when the two
  deployments were fetched, their desired replicas do not add up to
  \<^verbatim>\<open>rolloutTargetSize\<close> (the second half), the strategy's condition holds and the client
  accepts the patch. The condition is, under IncreaseFirst, that the target's ready pods
  plus the batch's allowed unavailable pods reach the target goal, and the patch sets the
  source to the source goal; under DecreaseFirst, that the source's pod count is the source
  goal, and the patch sets the target to the target goal. With done the error is
  \<^verbatim>\<open>nil\<close> and the cluster holds the patched count. A failed fetch and the first half
  report not done; a second half that reports not done leaves the cluster as it was.
\<close>

theorem RolloutOneBatchPods_done:
  assumes "RolloutOneBatchPods c = Inr (c', done, e)"
    and "fetchDeployments c = (c1, fe)"
    and "RolloutStrategy (rolloutSpec c) = [] \<or>
         RolloutStrategy (rolloutSpec c) = IncreaseFirstRolloutStrategyType \<or>
         RolloutStrategy (rolloutSpec c) = DecreaseFirstRolloutStrategyType"
  shows "(done \<longleftrightarrow>
            fe = None \<and>
            (\<exists>ps pt. Replicas (Spec (sourceDeploy c1)) = Some ps \<and>
                     Replicas (Spec (targetDeploy c1)) = Some pt \<and>
                     int32 (snd ps + snd pt) \<noteq> RolloutTargetSize (rolloutStatus c1)) \<and>
            (if RolloutStrategy (rolloutSpec c) = DecreaseFirstRolloutStrategyType
             then StatusReplicas (Status (sourceDeploy c1)) =
                    calculateCurrentSource c1 (RolloutTargetSize (rolloutStatus c1)) \<and>
                  PatchError (client c1) (Name (targetDeploy c1)) = None
             else (\<exists>b. batchAt (RolloutBatches (rolloutSpec c1)) (CurrentBatch (rolloutStatus c1)) = Inr b \<and>
                       calculateCurrentTarget c1 (RolloutTargetSize (rolloutStatus c1)) \<le>
                         int32 (ReadyReplicas (Status (targetDeploy c1)) +
                                int32 (maxUnavailOf b
                                  (calculateCurrentTarget c1 (RolloutTargetSize (rolloutStatus c1)))))) \<and>
                  PatchError (client c1) (Name (sourceDeploy c1)) = None)) \<and>
         (done \<longrightarrow>
            e = None \<and>
            (if RolloutStrategy (rolloutSpec c) = DecreaseFirstRolloutStrategyType
             then clusterReplicas c' (Name (targetDeploy c1)) =
                    Some (calculateCurrentTarget c1 (RolloutTargetSize (rolloutStatus c1)))
             else clusterReplicas c' (Name (sourceDeploy c1)) =
                    Some (calculateCurrentSource c1 (RolloutTargetSize (rolloutStatus c1))))) \<and>
         (\<not> done \<and> fe = None \<and>
          (\<exists>ps pt. Replicas (Spec (sourceDeploy c1)) = Some ps \<and>
                   Replicas (Spec (targetDeploy c1)) = Some pt \<and>
                   int32 (snd ps + snd pt) \<noteq> RolloutTargetSize (rolloutStatus c1)) \<longrightarrow>
          client c' = client c)"
proof -
  from fetchDeployments_frame [OF assms(2)]
  have SP: "rolloutSpec c1 = rolloutSpec c" and CL: "client c1 = client c"
    by simp_all
  let ?goal = "calculateCurrentTarget c1 (RolloutTargetSize (rolloutStatus c1))"
  let ?s = "if length (RolloutStrategy (rolloutSpec c1)) \<noteq> 0
            then RolloutStrategy (rolloutSpec c1) else IncreaseFirstRolloutStrategyType"
  have strategy: "?s = (if RolloutStrategy (rolloutSpec c) = DecreaseFirstRolloutStrategyType
                        then DecreaseFirstRolloutStrategyType else IncreaseFirstRolloutStrategyType)"
    using assms(3) SP
    by (auto simp: IncreaseFirstRolloutStrategyType_def DecreaseFirstRolloutStrategyType_def)
  note H = RolloutOneBatchPods_second_half [OF assms(1,2)]
  show ?thesis
  proof (cases fe)
    case (Some x)
    with H show ?thesis
      by simp
  next
    case None
    with H obtain ps pt where src: "Replicas (Spec (sourceDeploy c1)) = Some ps"
      and tgt: "Replicas (Spec (targetDeploy c1)) = Some pt"
      and K: "if int32 (snd ps + snd pt) = RolloutTargetSize (rolloutStatus c1) then \<not> done
              else \<exists>c2. rolloutBatchSecondHalf ?s ?goal c1 = Inr (c2, done) \<and>
                        client c' = client c2 \<and> (done \<longrightarrow> e = None)"
      by blast
    show ?thesis
    proof (cases "int32 (snd ps + snd pt) = RolloutTargetSize (rolloutStatus c1)")
      case True
      with K src tgt show ?thesis
        by simp
    next
      case False
      with K obtain c2 where R: "rolloutBatchSecondHalf ?s ?goal c1 = Inr (c2, done)"
        and C: "client c' = client c2" and E: "done \<longrightarrow> e = None"
        by auto
      from C have CR: "clusterReplicas c' = clusterReplicas c2"
        by (simp add: clusterReplicas_def fun_eq_iff)
      show ?thesis
      proof (cases "RolloutStrategy (rolloutSpec c) = DecreaseFirstRolloutStrategyType")
        case True
        with strategy R have "rolloutBatchSecondHalf DecreaseFirstRolloutStrategyType ?goal c1 = Inr (c2, done)"
          by simp
        from rolloutBatchSecondHalf_DecreaseFirst [OF this] None src tgt False True C CR CL E
        show ?thesis
          by simp
      next
        case notDecrease: False
        with strategy R have "rolloutBatchSecondHalf IncreaseFirstRolloutStrategyType ?goal c1 = Inr (c2, done)"
          by simp
        from rolloutBatchSecondHalf_IncreaseFirst [OF this] None src tgt False notDecrease C CR CL E
        show ?thesis
          by auto
      qed
    qed
  qed
qed

text \<open>
  Scenario A after its first half: the source still wants 10 replicas, the target wants
  5. With 5 target pods ready the call patches the source (to its goal, 0) and reports
  done; with 3 target pods ready it reports not done and the source keeps its 10.
\<close>

theorem RolloutOneBatchPods_done_witness:
  "(\<exists>c'. RolloutOneBatchPods (rollout ''IncreaseFirst'' 0 (source 10 10) (target 5 5)) = Inr (c', True, None) \<and>
         clusterReplicas c' ''source'' = Some 0) \<and>
   (\<exists>c' e. RolloutOneBatchPods (rollout ''IncreaseFirst'' 0 (source 10 10) (target 5 3)) = Inr (c', False, e) \<and>
         clusterReplicas c' ''source'' = Some 10)"
proof
  let ?k = "rollout ''IncreaseFirst'' 0 (source 10 10) (target 5 5)"
  let ?c1 = "fst (fetchDeployments ?k)"
  obtain c' where D: "RolloutOneBatchPods ?k = Inr (c', True, None)"
    by (simp add: phase_defs example_defs)
  have F: "fetchDeployments ?k = (?c1, None)"
    by (simp add: fetchDeployments_def Let_def example_defs)
  have S: "RolloutStrategy (rolloutSpec ?k) = [] \<or>
           RolloutStrategy (rolloutSpec ?k) = IncreaseFirstRolloutStrategyType \<or>
           RolloutStrategy (rolloutSpec ?k) = DecreaseFirstRolloutStrategyType"
    by (simp add: IncreaseFirstRolloutStrategyType_def example_defs)
  have N: "RolloutStrategy (rolloutSpec ?k) \<noteq> DecreaseFirstRolloutStrategyType"
    by (simp add: DecreaseFirstRolloutStrategyType_def example_defs)
  have G: "Name (sourceDeploy ?c1) = ''source''"
    "calculateCurrentSource ?c1 (RolloutTargetSize (rolloutStatus ?c1)) = 0"
    by (simp_all add: fetchDeployments_def decode_def Let_def calculateCurrentSource_def
                      GetValueFromIntOrPercent_def int32_def example_defs)
  from RolloutOneBatchPods_done [OF D F S] N G
  have "clusterReplicas c' ''source'' = Some 0"
    by simp
  with D show "\<exists>c'. RolloutOneBatchPods ?k = Inr (c', True, None) \<and> clusterReplicas c' ''source'' = Some 0"
    by blast
next
  let ?k = "rollout ''IncreaseFirst'' 0 (source 10 10) (target 5 3)"
  let ?c1 = "fst (fetchDeployments ?k)"
  obtain c' e where D: "RolloutOneBatchPods ?k = Inr (c', False, e)"
    by (simp add: phase_defs example_defs)
  have F: "fetchDeployments ?k = (?c1, None)"
    by (simp add: fetchDeployments_def Let_def example_defs)
  have S: "RolloutStrategy (rolloutSpec ?k) = [] \<or>
           RolloutStrategy (rolloutSpec ?k) = IncreaseFirstRolloutStrategyType \<or>
           RolloutStrategy (rolloutSpec ?k) = DecreaseFirstRolloutStrategyType"
    by (simp add: IncreaseFirstRolloutStrategyType_def example_defs)
  have P: "\<exists>ps pt. Replicas (Spec (sourceDeploy ?c1)) = Some ps \<and>
                   Replicas (Spec (targetDeploy ?c1)) = Some pt \<and>
                   int32 (snd ps + snd pt) \<noteq> RolloutTargetSize (rolloutStatus ?c1)"
    by (simp add: fetchDeployments_def decode_def Let_def int32_def example_defs)
  from RolloutOneBatchPods_done [OF D F S] P
  have "client c' = client ?k"
    by simp
  then have "clusterReplicas c' ''source'' = clusterReplicas ?k ''source''"
    by (simp add: clusterReplicas_def)
  also have "\<dots> = Some 10"
    by (simp add: example_defs)
  finally show "\<exists>c' e. RolloutOneBatchPods ?k = Inr (c', False, e) \<and> clusterReplicas c' ''source'' = Some 10"
    using D by blast
qed

theorem RolloutOneBatchPods_done_counterexample:
  "\<not> (\<forall>c c' done e. RolloutOneBatchPods c = Inr (c', done, e) \<longrightarrow> done = False)"
proof
  assume A: "\<forall>c c' done e. RolloutOneBatchPods c = Inr (c', done, e) \<longrightarrow> done = False"
  obtain c' where "RolloutOneBatchPods (rollout ''IncreaseFirst'' 0 (source 10 10) (target 5 5)) =
      Inr (c', True, None)"
    by (simp add: phase_defs example_defs)
  with A show False
    by blast
qed

subsection \<open>Verification\<close>

lemma VerifySpecOwners_status: "rolloutStatus (fst (VerifySpecOwners c)) = rolloutStatus c"
  by (simp add: VerifySpecOwners_def split: option.splits)

lemma VerifySpec_fetch_failed:
  assumes "fetchDeployments c = (c1, Some x)"
  shows "VerifySpec H V c = (retry (ErrorText x) c1, False, None)"
  using assms by (simp add: VerifySpec_def calculateTargetSize_def)





text \<open>
  The cell a fetch decodes the target's replica count into is older than any cell
  allocated afterwards, and a \<^verbatim>\<open>nil\<close> pointer equals no cell's address.
\<close>

lemma fetchDeployments_target_older:
  assumes "fetchDeployments c = (c1, None)"
  shows "\<not> ptr_eq (Replicas (Spec (targetDeploy c1))) (Some (nextAddr c1, v))"
  using assms
  by (auto simp: fetchDeployments_def decode_def Let_def ptr_eq_def split: sum.splits)

lemma fetchDeployments_calculateTargetSize:
  assumes "fetchDeployments c = (c1, None)"
  shows "\<exists>totalReplicas. calculateTargetSize c = (c1, totalReplicas, None)"
  using assms by (simp add: calculateTargetSize_def Let_def)

lemma VerifySpecOwners_error: "snd (snd (VerifySpecOwners c)) \<noteq> Some (MiddleOfUpdating n)"
  by (simp add: VerifySpecOwners_def split: option.splits)

text \<open>
  C5: when \<^verbatim>\<open>VerifySpec\<close> reaches the check (the fetch, the hash and the batch sizes
  were fine), it returns the "in the middle of updating" error exactly when the target is
  not paused. The target's replica count plays no part: the test compares the target's
  pointer with the pointer \<^verbatim>\<open>pointer.Int32Ptr(0)\<close> has just allocated, and these differ.
\<close>

theorem VerifySpec_middle_of_updating:
  assumes "fetchDeployments c = (c1, None)"
    and "H (Spec (targetDeploy c1)) = Inr h"
    and "h \<noteq> LastAppliedPodTemplateIdentifier (rolloutStatus c)"
    and "verifyRolloutBatchReplicaValue V (fst (snd (calculateTargetSize c))) c = None"
  shows "snd (snd (VerifySpec H V c)) = Some (MiddleOfUpdating (Name (sourceDeploy c1))) \<longleftrightarrow>
         \<not> Paused (Spec (targetDeploy c1))"
proof -
  from fetchDeployments_frame [OF assms(1)]
  have S: "rolloutStatus c1 = rolloutStatus c" and P: "rolloutSpec c1 = rolloutSpec c"
    by simp_all
  from fetchDeployments_calculateTargetSize [OF assms(1)]
  obtain totalReplicas where T: "calculateTargetSize c = (c1, totalReplicas, None)"
    by blast
  let ?c3 = "c1\<lparr>rolloutStatus := (rolloutStatus c1)
                \<lparr>RolloutTargetSize := totalReplicas, NewPodTemplateIdentifier := h\<rparr>\<rparr>"
  have V: "verifyRolloutBatchReplicaValue V totalReplicas ?c3 = None"
    using assms(4) T P
    by (auto simp: verifyRolloutBatchReplicaValue_def split: option.splits if_splits)
  show ?thesis
  proof (cases "Paused (Spec (targetDeploy c1))")
    case True
    with assms(2,3) T S V have "VerifySpec H V c = VerifySpecOwners ?c3"
      by (simp add: VerifySpec_def Let_def)
    with True show ?thesis
      by (simp add: VerifySpecOwners_error)
  next
    case False
    from fetchDeployments_target_older [OF assms(1)]
    have "\<not> ptr_eq (Replicas (Spec (targetDeploy c1))) (Some (nextAddr c1, 0))" .
    with False assms(2,3) T S V
    have "snd (snd (VerifySpec H V c)) = Some (MiddleOfUpdating (Name (sourceDeploy c1)))"
      by (simp add: VerifySpec_def Let_def Int32Ptr_def)
    with False show ?thesis
      by simp
  qed
qed

text \<open>
  The target is not paused and wants zero replicas ("empty"), nothing else is wrong:
  \<^verbatim>\<open>VerifySpec\<close> fails with the error that asks for a deployment "paused or empty".
\<close>

theorem VerifySpec_middle_of_updating_witness:
  "specReplicas (targetDeploy (fst (fetchDeployments (unverified None (source 10 10) (target 0 0))))) = Some 0 \<and>
   snd (snd (VerifySpec templateHash anyBatches (unverified None (source 10 10) (target 0 0)))) =
     Some (MiddleOfUpdating ''source'')"
proof -
  let ?k = "unverified None (source 10 10) (target 0 0)"
  let ?c1 = "fst (fetchDeployments ?k)"
  have F: "fetchDeployments ?k = (?c1, None)"
    by (simp add: fetchDeployments_def Let_def example_defs)
  have H: "templateHash (Spec (targetDeploy ?c1)) = Inr ''target''"
    by (simp add: fetchDeployments_def decode_def Let_def example_defs)
  have L: "''target'' \<noteq> LastAppliedPodTemplateIdentifier (rolloutStatus ?k)"
    by (simp add: example_defs)
  have V: "verifyRolloutBatchReplicaValue anyBatches (fst (snd (calculateTargetSize ?k))) ?k = None"
    by (simp add: verifyRolloutBatchReplicaValue_def example_defs)
  have U: "\<not> Paused (Spec (targetDeploy ?c1))"
    and Z: "specReplicas (targetDeploy ?c1) = Some 0"
    and N: "Name (sourceDeploy ?c1) = ''source''"
    by (simp_all add: fetchDeployments_def decode_def Let_def example_defs)
  from VerifySpec_middle_of_updating [of ?k ?c1 templateHash "''target''" anyBatches, OF F H L V]
    U Z N
  show ?thesis
    by simp
qed

subsection \<open>Ownership\<close>

text \<open>
  C7, as the code has it: \<^verbatim>\<open>claimDeployment\<close> appends the rollout's controller reference
  to the owner references and clears the pause flag in every case, whether or not the
  reference is there already and whether or not the patch goes through; claiming twice
  leaves the reference twice.
\<close>

theorem claimDeployment_appends:
  "OwnerReferences (deployOf w (fst (claimDeployment w c))) =
     OwnerReferences (deployOf w c) @ [NewControllerRef (parentController c)] \<and>
   \<not> Paused (Spec (deployOf w (fst (claimDeployment w c)))) \<and>
   OwnerReferences (deployOf w (fst (claimDeployment w (fst (claimDeployment w c))))) =
     OwnerReferences (deployOf w c) @
       [NewControllerRef (parentController c), NewControllerRef (parentController c)]"
  by (cases w; cases "PatchError (client c) (Name (sourceDeploy c))";
      cases "PatchError (client c) (Name (targetDeploy c))")
     (simp_all add: claimDeployment_def Patch_def deployOf_def setDeploy_def Let_def)

text \<open>
  The two deployments are fetched and claimed, and the source is claimed once more: its
  local copy then lists the reference twice. So does the cluster's copy after
  \<^verbatim>\<open>Initialize\<close> has run twice.
\<close>

theorem claimDeployment_twice_counterexample:
  "OwnerReferences (deployOf SourceDeploy (fst (claimDeployment SourceDeploy
      (fst (fetchDeployments (rollout [] 0 (source 10 10) (target 0 0))))))) =
     [NewControllerRef \<lparr>ParentName = ''rollout'', ParentUID = ''uid''\<rparr>] \<and>
   OwnerReferences (deployOf SourceDeploy (fst (claimDeployment SourceDeploy
      (fst (claimDeployment SourceDeploy
        (fst (fetchDeployments (rollout [] 0 (source 10 10) (target 0 0))))))))) =
     [NewControllerRef \<lparr>ParentName = ''rollout'', ParentUID = ''uid''\<rparr>,
      NewControllerRef \<lparr>ParentName = ''rollout'', ParentUID = ''uid''\<rparr>] \<and>
   clusterOwners (fst (Initialize (fst (Initialize (rollout [] 0 (source 10 10) (target 0 0))))))
      ''source'' =
     [NewControllerRef \<lparr>ParentName = ''rollout'', ParentUID = ''uid''\<rparr>,
      NewControllerRef \<lparr>ParentName = ''rollout'', ParentUID = ''uid''\<rparr>]"
  by (simp add: Initialize_def claimDeployment_def Patch_def deployOf_def setDeploy_def
                fetchDeployments_def decode_def Let_def example_defs)

subsection \<open>Unknown strategies\<close>

text \<open>In the first half an unknown strategy is a fatal error.\<close>

lemma rolloutBatchFirstHalf_unknown_strategy:
  assumes "rolloutStrategy \<noteq> IncreaseFirstRolloutStrategyType"
    and "rolloutStrategy \<noteq> DecreaseFirstRolloutStrategyType"
  shows "rolloutBatchFirstHalf rolloutStrategy c = (c, Some (UnknownRolloutStrategy rolloutStrategy))"
  using assms by (simp add: rolloutBatchFirstHalf_def)

text \<open>
  C8: in the second half of a batch (the deployments were fetched, and their desired
  replicas do not add up to \<^verbatim>\<open>rolloutTargetSize\<close>) a non-empty strategy that is neither
  \<^verbatim>\<open>IncreaseFirst\<close> nor \<^verbatim>\<open>DecreaseFirst\<close> makes \<^verbatim>\<open>RolloutOneBatchPods\<close> return
  \<^verbatim>\<open>(true, nil)\<close>: no error, nothing patched, and the target goal recorded as
  \<^verbatim>\<open>upgradedReplicas\<close>.
\<close>

theorem RolloutOneBatchPods_unknown_strategy_second_half:
  assumes "fetchDeployments c = (c1, None)"
    and "Replicas (Spec (sourceDeploy c1)) = Some ps"
    and "Replicas (Spec (targetDeploy c1)) = Some pt"
    and "int32 (snd ps + snd pt) \<noteq> RolloutTargetSize (rolloutStatus c1)"
    and "RolloutStrategy (rolloutSpec c) \<noteq> []"
    and "RolloutStrategy (rolloutSpec c) \<noteq> IncreaseFirstRolloutStrategyType"
    and "RolloutStrategy (rolloutSpec c) \<noteq> DecreaseFirstRolloutStrategyType"
  shows "RolloutOneBatchPods c =
           Inr (c1\<lparr>rolloutStatus := (rolloutStatus c1)
                     \<lparr>UpgradedReplicas := calculateCurrentTarget c1 (RolloutTargetSize (rolloutStatus c1))\<rparr>\<rparr>,
                True, None)"
proof -
  from fetchDeployments_frame [OF assms(1)] have S: "rolloutSpec c1 = rolloutSpec c"
    by simp
  have "rolloutBatchSecondHalf (RolloutStrategy (rolloutSpec c))
          (calculateCurrentTarget c1 (RolloutTargetSize (rolloutStatus c1))) c1 = Inr (c1, True)"
    using assms(6,7) by (simp add: rolloutBatchSecondHalf_def)
  with assms S show ?thesis
    by (simp add: RolloutOneBatchPods_def Let_def)
qed

text \<open>Scenario A after its first half, with the strategy \<open>''Canary''\<close>.\<close>

theorem RolloutOneBatchPods_unknown_strategy_witness:
  "\<exists>c'. RolloutOneBatchPods (rollout ''Canary'' 0 (source 10 10) (target 5 0)) = Inr (c', True, None) \<and>
        UpgradedReplicas (rolloutStatus c') = 5 \<and>
        clusterReplicas c' ''source'' = Some 10 \<and> clusterReplicas c' ''target'' = Some 5"
proof -
  let ?k = "rollout ''Canary'' 0 (source 10 10) (target 5 0)"
  let ?c1 = "fst (fetchDeployments ?k)"
  have F: "fetchDeployments ?k = (?c1, None)"
    by (simp add: fetchDeployments_def Let_def example_defs)
  have S: "Replicas (Spec (sourceDeploy ?c1)) = Some (1, 10)"
    by (simp add: fetchDeployments_def decode_def Let_def example_defs)
  have T: "Replicas (Spec (targetDeploy ?c1)) = Some (2, 5)"
    by (simp add: fetchDeployments_def decode_def Let_def example_defs)
  have N: "int32 (snd (1::nat, 10::int) + snd (2::nat, 5::int)) \<noteq> RolloutTargetSize (rolloutStatus ?c1)"
    by (simp add: fetchDeployments_def Let_def int32_def example_defs)
  have G: "calculateCurrentTarget ?c1 (RolloutTargetSize (rolloutStatus ?c1)) = 5"
    by (simp add: fetchDeployments_def Let_def calculateCurrentTarget_def
                  GetValueFromIntOrPercent_def int32_def example_defs)
  have C: "clusterReplicas ?c1 ''source'' = Some 10 \<and> clusterReplicas ?c1 ''target'' = Some 5"
    by (simp add: fetchDeployments_def Let_def example_defs)
  have "RolloutStrategy (rolloutSpec ?k) \<noteq> []"
    and "RolloutStrategy (rolloutSpec ?k) \<noteq> IncreaseFirstRolloutStrategyType"
    and "RolloutStrategy (rolloutSpec ?k) \<noteq> DecreaseFirstRolloutStrategyType"
    by (simp_all add: IncreaseFirstRolloutStrategyType_def DecreaseFirstRolloutStrategyType_def
                      example_defs)
  from RolloutOneBatchPods_unknown_strategy_second_half [OF F S T N this] G C show ?thesis
    by (simp add: clusterReplicas_def)
qed

subsection \<open>The last applied identifier\<close>

text \<open>Patches, claims and retries leave the rollout status, or at least its
  \<^verbatim>\<open>lastAppliedPodTemplateIdentifier\<close>, as it was.\<close>

lemma retry_lastApplied:
  "LastAppliedPodTemplateIdentifier (rolloutStatus (retry r c)) =
   LastAppliedPodTemplateIdentifier (rolloutStatus c)"
  by (simp add: retry_def RolloutRetry_def)

lemma Patch_status:
  assumes "Patch obj c = (c', eo)"
  shows "rolloutStatus c' = rolloutStatus c"
  using assms by (auto simp: Patch_def split: option.splits)

lemma setDeploy_status: "rolloutStatus (setDeploy w d c) = rolloutStatus c"
  by (cases w) (simp_all add: setDeploy_def)

lemma patchDeployment_status:
  assumes "patchDeployment t w c = (c', eo)"
  shows "rolloutStatus c' = rolloutStatus c"
  using assms Patch_status [of _ _ c' eo]
  by (auto simp: patchDeployment_def Int32Ptr_def Let_def setDeploy_status)

lemma claimDeployment_status:
  assumes "claimDeployment w c = (c', eo)"
  shows "rolloutStatus c' = rolloutStatus c"
  using assms Patch_status [of _ _ c' eo]
  by (auto simp: claimDeployment_def Let_def setDeploy_status)

lemma releaseDeployment_lastApplied:
  assumes "releaseDeployment w c = (c', eo)"
  shows "LastAppliedPodTemplateIdentifier (rolloutStatus c') =
         LastAppliedPodTemplateIdentifier (rolloutStatus c)"
proof -
  obtain newOwnerList found where L: "releaseLoop (OwnerReferences (deployOf w c)) [] False = (newOwnerList, found)"
    by (cases "releaseLoop (OwnerReferences (deployOf w c)) [] False")
  show ?thesis
  proof (cases found)
    case False
    with assms L show ?thesis
      by (simp add: releaseDeployment_def)
  next
    case True
    let ?deploy = "(deployOf w c)\<lparr>OwnerReferences := newOwnerList\<rparr>"
    obtain c1 po where P: "Patch ?deploy (setDeploy w ?deploy c) = (c1, po)"
      by (cases "Patch ?deploy (setDeploy w ?deploy c)")
    from Patch_status [OF P] have "rolloutStatus c1 = rolloutStatus c"
      by (simp add: setDeploy_status)
    with assms L True P show ?thesis
      by (cases po) (auto simp: releaseDeployment_def Let_def retry_lastApplied)
  qed
qed

lemma rolloutBatchFirstHalf_lastApplied:
  assumes "rolloutBatchFirstHalf s c = (c', eo)"
  shows "LastAppliedPodTemplateIdentifier (rolloutStatus c') =
         LastAppliedPodTemplateIdentifier (rolloutStatus c)"
proof -
  obtain ct et where T: "patchDeployment (calculateCurrentTarget c (RolloutTargetSize (rolloutStatus c)))
                           TargetDeploy c = (ct, et)"
    by (cases "patchDeployment (calculateCurrentTarget c (RolloutTargetSize (rolloutStatus c))) TargetDeploy c")
  obtain cs es where S: "patchDeployment (calculateCurrentSource c (RolloutTargetSize (rolloutStatus c)))
                           SourceDeploy c = (cs, es)"
    by (cases "patchDeployment (calculateCurrentSource c (RolloutTargetSize (rolloutStatus c))) SourceDeploy c")
  from patchDeployment_status [OF T] patchDeployment_status [OF S] assms T S show ?thesis
    by (cases et; cases es)
       (auto simp: rolloutBatchFirstHalf_def retry_lastApplied split: if_splits)
qed

lemma rolloutBatchSecondHalf_lastApplied:
  assumes "rolloutBatchSecondHalf s t c = Inr (c2, ok)"
  shows "LastAppliedPodTemplateIdentifier (rolloutStatus c2) =
         LastAppliedPodTemplateIdentifier (rolloutStatus c)"
proof -
  obtain ct et where T: "patchDeployment t TargetDeploy c = (ct, et)"
    by (cases "patchDeployment t TargetDeploy c")
  obtain cs es where S: "patchDeployment (calculateCurrentSource c (RolloutTargetSize (rolloutStatus c)))
                           SourceDeploy c = (cs, es)"
    by (cases "patchDeployment (calculateCurrentSource c (RolloutTargetSize (rolloutStatus c))) SourceDeploy c")
  from patchDeployment_status [OF T] patchDeployment_status [OF S] assms T S show ?thesis
    by (cases et; cases es)
       (auto simp: rolloutBatchSecondHalf_def Let_def retry_lastApplied split: if_splits sum.splits)
qed

lemma RolloutOneBatchPods_lastApplied:
  assumes "RolloutOneBatchPods c = Inr (c', done, e)"
  shows "LastAppliedPodTemplateIdentifier (rolloutStatus c') =
         LastAppliedPodTemplateIdentifier (rolloutStatus c)"
proof -
  obtain c1 fe where F: "fetchDeployments c = (c1, fe)"
    by (cases "fetchDeployments c")
  from fetchDeployments_frame [OF F] have S: "rolloutStatus c1 = rolloutStatus c"
    by simp
  show ?thesis
  proof (cases fe)
    case (Some x)
    with assms F S show ?thesis
      by (auto simp: RolloutOneBatchPods_def)
  next
    case None
    from RolloutOneBatchPods_second_half [OF assms F] None
    obtain ps pt where src: "Replicas (Spec (sourceDeploy c1)) = Some ps"
      and tgt: "Replicas (Spec (targetDeploy c1)) = Some pt"
      by blast
    let ?s = "if length (RolloutStrategy (rolloutSpec c1)) \<noteq> 0
              then RolloutStrategy (rolloutSpec c1) else IncreaseFirstRolloutStrategyType"
    show ?thesis
    proof (cases "int32 (snd ps + snd pt) = RolloutTargetSize (rolloutStatus c1)")
      case True
      obtain c2 eo where H: "rolloutBatchFirstHalf ?s c1 = (c2, eo)"
        by (cases "rolloutBatchFirstHalf ?s c1")
      with assms F None src tgt True have "c' = c2"
        by (simp add: RolloutOneBatchPods_def Let_def)
      with rolloutBatchFirstHalf_lastApplied [OF H] S show ?thesis
        by simp
    next
      case False
      let ?r = "rolloutBatchSecondHalf ?s (calculateCurrentTarget c1 (RolloutTargetSize (rolloutStatus c1))) c1"
      show ?thesis
      proof (cases ?r)
        case (Inl p)
        with assms F None src tgt False show ?thesis
          by (simp add: RolloutOneBatchPods_def Let_def)
      next
        case (Inr r)
        then obtain c2 ok where R: "?r = Inr (c2, ok)"
          by (cases r) simp
        from assms F None src tgt False R
        have "LastAppliedPodTemplateIdentifier (rolloutStatus c') =
              LastAppliedPodTemplateIdentifier (rolloutStatus c2)"
          by (auto simp: RolloutOneBatchPods_def Let_def split: if_splits)
        with rolloutBatchSecondHalf_lastApplied [OF R] S show ?thesis
          by simp
      qed
    qed
  qed
qed

lemma VerifySpec_lastApplied:
  "LastAppliedPodTemplateIdentifier (rolloutStatus (fst (VerifySpec H V c))) =
   LastAppliedPodTemplateIdentifier (rolloutStatus c)"
proof -
  obtain c1 fe where F: "fetchDeployments c = (c1, fe)"
    by (cases "fetchDeployments c")
  from fetchDeployments_frame [OF F] have S: "rolloutStatus c1 = rolloutStatus c"
    by simp
  show ?thesis
  proof (cases fe)
    case (Some x)
    with F S show ?thesis
      by (simp add: VerifySpec_fetch_failed retry_lastApplied)
  next
    case None
    show ?thesis
    proof (cases "H (Spec (targetDeploy c1))")
      case (Inl x)
      with F None S show ?thesis
        by (simp add: VerifySpec_def calculateTargetSize_def Let_def retry_lastApplied)
    next
      case (Inr h)
      with F None S show ?thesis
        by (simp add: VerifySpec_def calculateTargetSize_def Let_def Int32Ptr_def
                      VerifySpecOwners_status
                 split: option.splits)
    qed
  qed
qed

lemma Initialize_lastApplied:
  "LastAppliedPodTemplateIdentifier (rolloutStatus (fst (Initialize c))) =
   LastAppliedPodTemplateIdentifier (rolloutStatus c)"
proof -
  obtain c1 fe where F: "fetchDeployments c = (c1, fe)"
    by (cases "fetchDeployments c")
  obtain c2 e2 where A: "claimDeployment SourceDeploy c1 = (c2, e2)"
    by (cases "claimDeployment SourceDeploy c1")
  obtain c3 e3 where B: "claimDeployment TargetDeploy c2 = (c3, e3)"
    by (cases "claimDeployment TargetDeploy c2")
  from fetchDeployments_frame [OF F] claimDeployment_status [OF A] claimDeployment_status [OF B]
  have "rolloutStatus c1 = rolloutStatus c" "rolloutStatus c2 = rolloutStatus c"
    "rolloutStatus c3 = rolloutStatus c"
    by simp_all
  with F A B show ?thesis
    by (cases fe; cases e2; cases e3) (simp_all add: Initialize_def retry_lastApplied)
qed

lemma Finalize_lastApplied:
  "LastAppliedPodTemplateIdentifier (rolloutStatus (fst (Finalize succeed c))) =
   LastAppliedPodTemplateIdentifier (rolloutStatus c)"
proof -
  obtain c1 e1 where A: "releaseDeployment SourceDeploy c = (c1, e1)"
    by (cases "releaseDeployment SourceDeploy c")
  obtain c2 e2 where B: "releaseDeployment TargetDeploy c1 = (c2, e2)"
    by (cases "releaseDeployment TargetDeploy c1")
  from releaseDeployment_lastApplied [OF A] releaseDeployment_lastApplied [OF B] A B show ?thesis
    by (cases e1; cases e2) (simp_all add: Finalize_def retry_lastApplied)
qed

lemma CheckOneBatchPods_promotes:
  assumes "CheckOneBatchPods c = Inr (c', done, e)"
  shows "LastAppliedPodTemplateIdentifier (rolloutStatus c') =
           (if done then NewPodTemplateIdentifier (rolloutStatus c)
            else LastAppliedPodTemplateIdentifier (rolloutStatus c)) \<and>
         NewPodTemplateIdentifier (rolloutStatus c') = NewPodTemplateIdentifier (rolloutStatus c)"
proof -
  obtain c1 fe where F: "fetchDeployments c = (c1, fe)"
    by (cases "fetchDeployments c")
  from fetchDeployments_frame [OF F] have S: "rolloutStatus c1 = rolloutStatus c"
    by simp
  show ?thesis
  proof (cases fe)
    case (Some x)
    with assms F S show ?thesis
      by (auto simp: CheckOneBatchPods_def)
  next
    case None
    show ?thesis
    proof (cases "batchAt (RolloutBatches (rolloutSpec c1)) (CurrentBatch (rolloutStatus c1))")
      case (Inl p)
      with assms F None show ?thesis
        by (simp add: CheckOneBatchPods_def)
    next
      case (Inr currentBatch)
      with assms F None S show ?thesis
        by (auto simp: CheckOneBatchPods_def Let_def retry_def RolloutRetry_def split: if_splits)
    qed
  qed
qed

text \<open>
  The first batch of the plan whose batches allow 100% of their pods to be unavailable, as
  the code runs it from 10 source replicas: the first call raises the target to 5, the
  second sets the source to its goal 0; with no source pod and 5 ready target pods
  \<^verbatim>\<open>CheckOneBatchPods\<close> then reports the batch done.
\<close>

lemma tolerant_first_batch_run:
  "(\<exists>c'. RolloutOneBatchPods (tolerantRollout ''IncreaseFirst'' 0 (source 10 10) (target 0 0)) =
           Inr (c', False, None) \<and>
         clusterReplicas c' ''source'' = Some 10 \<and> clusterReplicas c' ''target'' = Some 5) \<and>
   (\<exists>c'. RolloutOneBatchPods (tolerantRollout ''IncreaseFirst'' 0 (source 10 10) (target 5 5)) =
           Inr (c', True, None) \<and>
         clusterReplicas c' ''source'' = Some 0 \<and> clusterReplicas c' ''target'' = Some 5) \<and>
   (\<exists>c'. CheckOneBatchPods (tolerantRollout ''IncreaseFirst'' 0 (source 0 0) (target 5 5)) =
           Inr (c', True, None))"
  by (simp add: phase_defs example_defs)

text \<open>
  C4, as the code has it: \<^verbatim>\<open>lastAppliedPodTemplateIdentifier\<close> is assigned by a
  successful \<^verbatim>\<open>CheckOneBatchPods\<close> only, and by every one, for whichever batch of the
  plan: when \<^verbatim>\<open>CheckOneBatchPods\<close> reports done, the field becomes the
  \<^verbatim>\<open>newPodTemplateIdentifier\<close>; when it returns without reporting done, the field stays
  as it was. No other phase changes it: not \<^verbatim>\<open>RolloutOneBatchPods\<close> (so not the
  submission of a patch), not \<^verbatim>\<open>VerifySpec\<close>, \<^verbatim>\<open>Initialize\<close>,
  \<^verbatim>\<open>FinalizeOneBatch\<close> or \<^verbatim>\<open>Finalize\<close>. (A call that panics returns no state; none
  of them assigns the field before it can panic.)
\<close>

theorem lastApplied_assigned_by_successful_check:
  "(CheckOneBatchPods c = Inr (c', done, e) \<longrightarrow>
      LastAppliedPodTemplateIdentifier (rolloutStatus c') =
        (if done then NewPodTemplateIdentifier (rolloutStatus c)
         else LastAppliedPodTemplateIdentifier (rolloutStatus c)) \<and>
      NewPodTemplateIdentifier (rolloutStatus c') = NewPodTemplateIdentifier (rolloutStatus c)) \<and>
   (RolloutOneBatchPods c = Inr (c'', done', e') \<longrightarrow>
      LastAppliedPodTemplateIdentifier (rolloutStatus c'') =
        LastAppliedPodTemplateIdentifier (rolloutStatus c)) \<and>
   LastAppliedPodTemplateIdentifier (rolloutStatus (fst (VerifySpec H V c))) =
     LastAppliedPodTemplateIdentifier (rolloutStatus c) \<and>
   LastAppliedPodTemplateIdentifier (rolloutStatus (fst (Initialize c))) =
     LastAppliedPodTemplateIdentifier (rolloutStatus c) \<and>
   LastAppliedPodTemplateIdentifier (rolloutStatus (fst (FinalizeOneBatch c))) =
     LastAppliedPodTemplateIdentifier (rolloutStatus c) \<and>
   LastAppliedPodTemplateIdentifier (rolloutStatus (fst (Finalize succeed c))) =
     LastAppliedPodTemplateIdentifier (rolloutStatus c)"
  using CheckOneBatchPods_promotes [of c c' "done" e] RolloutOneBatchPods_lastApplied [of c c'' done' e']
  by (simp add: VerifySpec_lastApplied Initialize_lastApplied Finalize_lastApplied FinalizeOneBatch_def)

text \<open>
  In the run above, the second call submits its patch and reports done, and the last
  applied identifier is still \<open>''v1''\<close>; the check of this first batch of two then
  promotes \<open>''v2''\<close>.
\<close>

theorem lastApplied_assigned_by_successful_check_witness:
  "(\<exists>c'. RolloutOneBatchPods (tolerantRollout ''IncreaseFirst'' 0 (source 10 10) (target 5 5)) =
           Inr (c', True, None) \<and>
         LastAppliedPodTemplateIdentifier (rolloutStatus c') = ''v1'') \<and>
   (\<exists>c'. CheckOneBatchPods (tolerantRollout ''IncreaseFirst'' 0 (source 0 0) (target 5 5)) =
           Inr (c', True, None) \<and>
         LastAppliedPodTemplateIdentifier (rolloutStatus c') = ''v2'')"
proof
  let ?k = "tolerantRollout ''IncreaseFirst'' 0 (source 10 10) (target 5 5)"
  obtain c' where D: "RolloutOneBatchPods ?k = Inr (c', True, None)"
    by (simp add: phase_defs example_defs)
  have "LastAppliedPodTemplateIdentifier (rolloutStatus ?k) = ''v1''"
    by (simp add: example_defs)
  with lastApplied_assigned_by_successful_check [of ?k _ _ _ c' True None] D
  have "LastAppliedPodTemplateIdentifier (rolloutStatus c') = ''v1''"
    by simp
  with D show "\<exists>c'. RolloutOneBatchPods ?k = Inr (c', True, None) \<and>
                    LastAppliedPodTemplateIdentifier (rolloutStatus c') = ''v1''"
    by blast
next
  let ?k = "tolerantRollout ''IncreaseFirst'' 0 (source 0 0) (target 5 5)"
  obtain c' where D: "CheckOneBatchPods ?k = Inr (c', True, None)"
    by (simp add: phase_defs example_defs)
  have "NewPodTemplateIdentifier (rolloutStatus ?k) = ''v2''"
    by (simp add: example_defs)
  with lastApplied_assigned_by_successful_check [of ?k c' True None] D
  have "LastAppliedPodTemplateIdentifier (rolloutStatus c') = ''v2''"
    by simp
  with D show "\<exists>c'. CheckOneBatchPods ?k = Inr (c', True, None) \<and>
                    LastAppliedPodTemplateIdentifier (rolloutStatus c') = ''v2''"
    by blast
qed

theorem CheckOneBatchPods_nonfinal_counterexample:
  "\<not> (\<forall>c c'. CurrentBatch (rolloutStatus c) \<noteq> int (length (RolloutBatches (rolloutSpec c))) - 1 \<and>
               CheckOneBatchPods c = Inr (c', True, None) \<longrightarrow>
               LastAppliedPodTemplateIdentifier (rolloutStatus c') =
                 LastAppliedPodTemplateIdentifier (rolloutStatus c))"
proof
  let ?k = "tolerantRollout ''IncreaseFirst'' 0 (source 0 0) (target 5 5)"
  assume A: "\<forall>c c'. CurrentBatch (rolloutStatus c) \<noteq> int (length (RolloutBatches (rolloutSpec c))) - 1 \<and>
               CheckOneBatchPods c = Inr (c', True, None) \<longrightarrow>
               LastAppliedPodTemplateIdentifier (rolloutStatus c') =
                 LastAppliedPodTemplateIdentifier (rolloutStatus c)"
  obtain c' where D: "CheckOneBatchPods ?k = Inr (c', True, None)"
    and L: "LastAppliedPodTemplateIdentifier (rolloutStatus c') = ''v2''"
    by (simp add: phase_defs example_defs)
  have B: "CurrentBatch (rolloutStatus ?k) \<noteq> int (length (RolloutBatches (rolloutSpec ?k))) - 1"
    by (simp add: example_defs)
  have "LastAppliedPodTemplateIdentifier (rolloutStatus ?k) = ''v1''"
    by (simp add: example_defs)
  with A B D L show False
    by fastforce
qed

text \<open>
  C10: \<^verbatim>\<open>FinalizeOneBatch\<close> returns \<^verbatim>\<open>(false, nil)\<close> in every state and changes
  nothing; so after any number \<open>n\<close> of calls, each on the state the last one left, the next
  call still reports \<^verbatim>\<open>done = false\<close>.
\<close>

theorem FinalizeOneBatch_never_done:
  "FinalizeOneBatch c = (c, False, None) \<and>
   \<not> fst (snd (FinalizeOneBatch (((\<lambda>s. fst (FinalizeOneBatch s)) ^^ n) c)))"
  by (simp add: FinalizeOneBatch_def)

end
